theory Spec2Isabelle
  imports Complex_Main "HOL-Library.AList"
begin

section \<open>JavaScript values and strings\<close>

text \<open>
  Numbers are modelled as reals; the places where the source can leave the finite
  numbers (\<open>parseInt\<close>, \<open>parseFloat\<close>, \<open>Math.log\<close> and the quotient of two logarithms)
  are written out with \<open>NaN\<close> and the infinities.  IEEE rounding is modelled in one place
  only, the sum \<open>x + 1\<close> under \<open>Math.log\<close>, where it decides whether a quotient is a
  number.  Strings are ASCII character lists.  A JavaScript \<open>Map\<close> is an association
  list in insertion order, a \<open>Set\<close> a list in insertion order.
\<close>

datatype jsval = Undefined | Bool bool | Num real | Str string

datatype error = Error string | TypeError | NotFound nat

definition charCode :: "char \<Rightarrow> nat" where
  "charCode c = of_char c"

definition lower_char :: "char \<Rightarrow> char" where
  "lower_char c = (if 65 \<le> charCode c \<and> charCode c \<le> 90 then char_of (charCode c + 32) else c)"

definition toLowerCase :: "string \<Rightarrow> string" where
  "toLowerCase s = map lower_char s"

definition is_space :: "char \<Rightarrow> bool" where
  \<comment> \<open>the ASCII members of the class \<open>\s\<close>: tab, line feed, vertical tab, form feed,
      carriage return, space\<close>
  "is_space c = (charCode c \<in> {9, 10, 11, 12, 13, 32})"

definition trim :: "string \<Rightarrow> string" where
  "trim s = rev (dropWhile is_space (rev (dropWhile is_space s)))"

fun startsWith :: "string \<Rightarrow> string \<Rightarrow> bool" where
  "startsWith s [] = True"
| "startsWith [] (c # t) = False"
| "startsWith (a # s) (c # t) = (a = c \<and> startsWith s t)"

definition endsWith :: "string \<Rightarrow> string \<Rightarrow> bool" where
  "endsWith s t = startsWith (rev s) (rev t)"

fun str_includes :: "string \<Rightarrow> string \<Rightarrow> bool" where
  "str_includes [] t = (t = [])"
| "str_includes (a # s) t = (startsWith (a # s) t \<or> str_includes s t)"

text \<open>\<open>s.split(/\s+/)\<close>: the pieces between maximal runs of white space; a run at either
  end leaves an empty piece there.\<close>

fun split_ws_aux :: "bool \<Rightarrow> string \<Rightarrow> string \<Rightarrow> string list" where
  "split_ws_aux inrun cur [] = [rev cur]"
| "split_ws_aux inrun cur (c # s) =
     (if is_space c then
        (if inrun then split_ws_aux True [] s else rev cur # split_ws_aux True [] s)
      else split_ws_aux False (c # cur) s)"

definition split_ws :: "string \<Rightarrow> string list" where
  "split_ws s = split_ws_aux False [] s"

text \<open>\<open>xs.join(" ")\<close>\<close>

fun join_sp :: "string list \<Rightarrow> string" where
  "join_sp [] = []"
| "join_sp [x] = x"
| "join_sp (x # y # xs) = x @ '' '' @ join_sp (y # xs)"

definition is_alnum_lower :: "char \<Rightarrow> bool" where
  \<comment> \<open>the class \<open>[a-z0-9]\<close>\<close>
  "is_alnum_lower c =
     ((97 \<le> charCode c \<and> charCode c \<le> 122) \<or> (48 \<le> charCode c \<and> charCode c \<le> 57))"

definition is_alnum :: "char \<Rightarrow> bool" where
  \<comment> \<open>the class \<open>[a-z0-9]\<close> under the flag \<open>i\<close>\<close>
  "is_alnum c = (is_alnum_lower c \<or> (65 \<le> charCode c \<and> charCode c \<le> 90))"

text \<open>\<open>Math.round\<close> rounds half up.\<close>

definition Math_round :: "real \<Rightarrow> real" where
  "Math_round x = of_int \<lfloor>x + 1 / 2\<rfloor>"

section \<open>Product (models/Product.js)\<close>

datatype mval = MStr string | MBool bool

record Analytics =
  unitsSold :: "real option"
  returnRate :: "real option"
  profitMargin :: "real option"
  isTrending :: bool
  isOnSale :: bool

definition no_analytics :: Analytics where
  "no_analytics = \<lparr>unitsSold = None, returnRate = None, profitMargin = None,
                    isTrending = False, isOnSale = False\<rparr>"

text \<open>The object handed to the constructor: every property may be absent.\<close>

record ProductData =
  d_productId :: "nat option"
  d_title :: "string option"
  d_description :: "string option"
  d_category :: "string option"
  d_subcategory :: "string option"
  d_brand :: "string option"
  d_model :: "string option"
  d_price :: "real option"
  d_mrp :: "real option"
  d_currency :: "string option"
  d_rating :: "real option"
  d_ratingCount :: "real option"
  d_stock :: "real option"
  d_isActive :: "bool option"
  d_imageUrls :: "string list option"
  d_metadata :: "(string \<times> mval) list option"
  d_analytics :: "Analytics option"
  d_searchableText :: "string option"
  d_tags :: "string list option"
  d_createdAt :: "int option"
  d_updatedAt :: "int option"

record Product =
  productId :: nat
  title :: string
  description :: "string option"
  category :: "string option"
  subcategory :: "string option"
  brand :: "string option"
  model :: "string option"
  price :: real
  mrp :: "real option"
  currency :: string
  rating :: real
  ratingCount :: real
  stock :: real
  isActive :: bool
  imageUrls :: "string list"
  metadata :: "(string \<times> mval) list"
  analytics :: Analytics
  searchableText :: string
  tags :: "string list"
  createdAt :: int
  updatedAt :: int

text \<open>\<open>x || d\<close> on an optional number, string or id: absent, \<open>0\<close> and \<open>""\<close> are falsy.\<close>

definition num_or :: "real option \<Rightarrow> real \<Rightarrow> real" where
  "num_or x d = (case x of None \<Rightarrow> d | Some v \<Rightarrow> if v = 0 then d else v)"

definition or_str :: "string option \<Rightarrow> string \<Rightarrow> string" where
  "or_str x d = (case x of None \<Rightarrow> d | Some v \<Rightarrow> if v = [] then d else v)"

definition or_id :: "nat option \<Rightarrow> nat \<Rightarrow> nat" where
  "or_id x d = (case x of None \<Rightarrow> d | Some v \<Rightarrow> if v = 0 then d else v)"

definition mval_text :: "mval \<Rightarrow> string option" where
  \<comment> \<open>what \<open>filter(Boolean)\<close> and \<open>join\<close> make of a metadata value\<close>
  "mval_text v = (case v of MStr s \<Rightarrow> Some s | MBool b \<Rightarrow> if b then Some ''true'' else None)"

definition truthy_str :: "string option \<Rightarrow> string list" where
  "truthy_str x = (case x of None \<Rightarrow> [] | Some s \<Rightarrow> if s = [] then [] else [s])"

definition generateSearchableText ::
  "string option \<Rightarrow> string option \<Rightarrow> string option \<Rightarrow> string option \<Rightarrow> string option \<Rightarrow>
   string option \<Rightarrow> string list \<Rightarrow> (string \<times> mval) list \<Rightarrow> string" where
  "generateSearchableText ttl desc brnd mdl cat subcat tgs meta =
     toLowerCase (join_sp
       (concat (map truthy_str
          ([ttl, desc, brnd, mdl, cat, subcat] @ map Some tgs @ map (mval_text \<circ> snd) meta))))"

definition validate_product :: "Product \<Rightarrow> error + Product" where
  "validate_product p =
     (if title p = [] \<or> trim (title p) = [] then Inl (Error ''Product title is required'')
      else if price p \<le> 0 then Inl (Error ''Product price must be greater than 0'')
      else if rating p < 0 \<or> rating p > 5 then Inl (Error ''Rating must be between 0 and 5'')
      else if stock p < 0 then Inl (Error ''Stock cannot be negative'')
      else Inr p)"

text \<open>
  The constructor.  \<open>now\<close> is what \<open>new Date()\<close> reads and \<open>genId\<close> what \<open>generateId()\<close>
  returns.  The searchable text is generated before \<open>this.tags\<close> is assigned, so the
  generated text sees no tags.  An absent title or price fails \<open>validate\<close> like an empty
  title or the price \<open>0\<close>.
\<close>

definition new_Product :: "int \<Rightarrow> nat \<Rightarrow> ProductData \<Rightarrow> error + Product" where
  "new_Product now genId d =
     validate_product
       \<lparr>productId = or_id (d_productId d) genId,
        title = or_str (d_title d) [],
        description = d_description d,
        category = d_category d,
        subcategory = d_subcategory d,
        brand = d_brand d,
        model = d_model d,
        price = num_or (d_price d) 0,
        mrp = d_mrp d,
        currency = or_str (d_currency d) ''INR'',
        rating = num_or (d_rating d) 0,
        ratingCount = num_or (d_ratingCount d) 0,
        stock = num_or (d_stock d) 0,
        isActive = (case d_isActive d of None \<Rightarrow> True | Some b \<Rightarrow> b),
        imageUrls = (case d_imageUrls d of None \<Rightarrow> [] | Some us \<Rightarrow> us),
        metadata = (case d_metadata d of None \<Rightarrow> [] | Some m \<Rightarrow> m),
        analytics = (case d_analytics d of None \<Rightarrow> no_analytics | Some a \<Rightarrow> a),
        searchableText =
          or_str (d_searchableText d)
            (generateSearchableText (d_title d) (d_description d) (d_brand d) (d_model d)
               (d_category d) (d_subcategory d) []
               (case d_metadata d of None \<Rightarrow> [] | Some m \<Rightarrow> m)),
        tags = (case d_tags d of None \<Rightarrow> [] | Some ts \<Rightarrow> ts),
        createdAt = (case d_createdAt d of None \<Rightarrow> now | Some t \<Rightarrow> t),
        updatedAt = (case d_updatedAt d of None \<Rightarrow> now | Some t \<Rightarrow> t)\<rparr>"

definition calculateDiscount :: "Product \<Rightarrow> real" where
  "calculateDiscount p =
     (case mrp p of
        None \<Rightarrow> 0
      | Some m \<Rightarrow> if m = 0 \<or> m \<le> price p then 0 else Math_round ((m - price p) / m * 100))"

datatype StockStatus = OUT_OF_STOCK | LOW_STOCK | MEDIUM_STOCK | HIGH_STOCK

definition getStockStatus :: "Product \<Rightarrow> StockStatus" where
  "getStockStatus p =
     (if stock p = 0 then OUT_OF_STOCK
      else if stock p \<le> 10 then LOW_STOCK
      else if stock p \<le> 50 then MEDIUM_STOCK
      else HIGH_STOCK)"

definition getPriceRange :: "Product \<Rightarrow> string" where
  "getPriceRange p =
     (if price p < 1000 then ''0-1000''
      else if price p < 5000 then ''1000-5000''
      else if price p < 10000 then ''5000-10000''
      else if price p < 25000 then ''10000-25000''
      else if price p < 50000 then ''25000-50000''
      else if price p < 100000 then ''50000-100000''
      else ''100000+'')"

definition getRatingBucket :: "Product \<Rightarrow> string" where
  "getRatingBucket p =
     (if rating p \<ge> 45 / 10 then ''4.5+''
      else if rating p \<ge> 4 then ''4.0-4.5''
      else if rating p \<ge> 35 / 10 then ''3.5-4.0''
      else if rating p \<ge> 3 then ''3.0-3.5''
      else if rating p \<ge> 2 then ''2.0-3.0''
      else ''below-2.0'')"

definition toJSON :: "Product \<Rightarrow> ProductData" where
  "toJSON p =
     \<lparr>d_productId = Some (productId p),
      d_title = Some (title p),
      d_description = description p,
      d_category = category p,
      d_subcategory = subcategory p,
      d_brand = brand p,
      d_model = model p,
      d_price = Some (price p),
      d_mrp = mrp p,
      d_currency = Some (currency p),
      d_rating = Some (rating p),
      d_ratingCount = Some (ratingCount p),
      d_stock = Some (stock p),
      d_isActive = Some (isActive p),
      d_imageUrls = Some (imageUrls p),
      d_metadata = Some (metadata p),
      d_analytics = Some (analytics p),
      d_searchableText = Some (searchableText p),
      d_tags = Some (tags p),
      d_createdAt = Some (createdAt p),
      d_updatedAt = Some (updatedAt p)\<rparr>"

section \<open>Number parsing (\<open>parseInt\<close>, \<open>parseFloat\<close>)\<close>

datatype jsnum = NaN | Fin real | PosInf | NegInf

definition digit_val :: "char \<Rightarrow> nat option" where
  "digit_val c = (if 48 \<le> charCode c \<and> charCode c \<le> 57 then Some (charCode c - 48) else None)"

definition hex_val :: "char \<Rightarrow> nat option" where
  "hex_val c =
     (if 48 \<le> charCode c \<and> charCode c \<le> 57 then Some (charCode c - 48)
      else if 97 \<le> charCode c \<and> charCode c \<le> 102 then Some (charCode c - 87)
      else if 65 \<le> charCode c \<and> charCode c \<le> 70 then Some (charCode c - 55)
      else None)"

definition digits_value :: "nat \<Rightarrow> (char \<Rightarrow> nat option) \<Rightarrow> string \<Rightarrow> nat" where
  "digits_value radix dv ds = foldl (\<lambda>a c. radix * a + (case dv c of None \<Rightarrow> 0 | Some d \<Rightarrow> d)) 0 ds"

definition is_digit :: "char \<Rightarrow> bool" where
  "is_digit c = (digit_val c \<noteq> None)"

definition strip_sign :: "string \<Rightarrow> bool \<times> string" where
  "strip_sign s =
     (case s of
        [] \<Rightarrow> (False, [])
      | c # r \<Rightarrow> if c = CHR ''-'' then (True, r) else if c = CHR ''+'' then (False, r) else (False, s))"

text \<open>\<open>parseInt(s)\<close> on a string, radix undefined: leading white space, a sign, then hex
  digits after \<open>0x\<close>/\<open>0X\<close> or decimal digits; \<open>None\<close> is \<open>NaN\<close>.\<close>

definition parseInt_str :: "string \<Rightarrow> int option" where
  "parseInt_str s =
     (let (neg, s2) = strip_sign (dropWhile is_space s);
          hex = (startsWith s2 ''0x'' \<or> startsWith s2 ''0X'');
          ds = (if hex then takeWhile (\<lambda>c. hex_val c \<noteq> None) (drop 2 s2) else takeWhile is_digit s2);
          v = (if hex then digits_value 16 hex_val ds else digits_value 10 digit_val ds)
      in if ds = [] then None else Some (if neg then - int v else int v))"

text \<open>\<open>parseInt(v)\<close>: the argument is converted to a string first.  A number in plain
  decimal notation (magnitude between \<open>1e-6\<close> and \<open>1e21\<close>, or zero) is cut at the decimal
  point; \<open>undefined\<close>, \<open>true\<close> and \<open>false\<close> give \<open>NaN\<close>.\<close>

definition parseInt :: "jsval \<Rightarrow> int option" where
  "parseInt v =
     (case v of
        Undefined \<Rightarrow> None
      | Bool b \<Rightarrow> None
      | Num r \<Rightarrow> Some (if r \<ge> 0 then \<lfloor>r\<rfloor> else \<lceil>r\<rceil>)
      | Str s \<Rightarrow> parseInt_str s)"

definition exponent_part :: "string \<Rightarrow> int" where
  \<comment> \<open>the exponent of a decimal literal: \<open>e\<close> or \<open>E\<close>, a sign, at least one digit\<close>
  "exponent_part s =
     (case s of
        [] \<Rightarrow> 0
      | c # r \<Rightarrow>
          if c = CHR ''e'' \<or> c = CHR ''E'' then
            (let (neg, r2) = strip_sign r; ds = takeWhile is_digit r2
             in if ds = [] then 0
                else if neg then - int (digits_value 10 digit_val ds)
                else int (digits_value 10 digit_val ds))
          else 0)"

definition parseFloat_str :: "string \<Rightarrow> jsnum" where
  "parseFloat_str s =
     (let (neg, s2) = strip_sign (dropWhile is_space s) in
      if startsWith s2 ''Infinity'' then (if neg then NegInf else PosInf)
      else
        (let ip = takeWhile is_digit s2;
             r1 = dropWhile is_digit s2;
             dot = (r1 \<noteq> [] \<and> hd r1 = CHR ''.'');
             fp = (if dot then takeWhile is_digit (tl r1) else []);
             r2 = (if dot then dropWhile is_digit (tl r1) else r1);
             m = real (digits_value 10 digit_val ip)
                 + real (digits_value 10 digit_val fp) / 10 ^ length fp;
             v = m * 10 powi exponent_part r2
         in if ip = [] \<and> fp = [] then NaN else Fin (if neg then - v else v)))"

definition parseFloat :: "jsval \<Rightarrow> jsnum" where
  "parseFloat v =
     (case v of Undefined \<Rightarrow> NaN | Bool b \<Rightarrow> NaN | Num r \<Rightarrow> Fin r | Str s \<Rightarrow> parseFloat_str s)"

definition truthy :: "jsval \<Rightarrow> bool" where
  "truthy v = (case v of Undefined \<Rightarrow> False | Bool b \<Rightarrow> b | Num r \<Rightarrow> r \<noteq> 0 | Str s \<Rightarrow> s \<noteq> [])"

definition truthy_num :: "jsnum option \<Rightarrow> bool" where
  \<comment> \<open>\<open>null\<close>, \<open>NaN\<close> and \<open>0\<close> are falsy\<close>
  "truthy_num x = (case x of None \<Rightarrow> False | Some NaN \<Rightarrow> False | Some (Fin r) \<Rightarrow> r \<noteq> 0 | Some _ \<Rightarrow> True)"

fun js_lt :: "jsnum \<Rightarrow> jsnum \<Rightarrow> bool" where
  "js_lt NaN _ = False"
| "js_lt _ NaN = False"
| "js_lt (Fin a) (Fin b) = (a < b)"
| "js_lt (Fin a) PosInf = True"
| "js_lt (Fin a) NegInf = False"
| "js_lt PosInf _ = False"
| "js_lt NegInf NegInf = False"
| "js_lt NegInf _ = True"

definition or_int :: "int option \<Rightarrow> int \<Rightarrow> int" where
  "or_int x d = (case x of None \<Rightarrow> d | Some v \<Rightarrow> if v = 0 then d else v)"

section \<open>SearchQuery (models/SearchQuery.js)\<close>

record QueryParams =
  p_query :: "string option"
  p_limit :: jsval
  p_offset :: jsval
  p_sortBy :: "string option"
  p_category :: "string option"
  p_brand :: "string option"
  p_minPrice :: jsval
  p_maxPrice :: jsval
  p_minRating :: jsval
  p_inStock :: jsval
  p_priceRange :: "string option"
  p_ratingRange :: "string option"

record SearchQuery =
  q_query :: string
  q_limit :: int
  q_offset :: int
  q_sortBy :: string
  q_category :: "string option"
  q_brand :: "string option"
  q_minPrice :: "jsnum option"
  q_maxPrice :: "jsnum option"
  q_minRating :: "jsnum option"
  q_inStock :: bool
  q_priceRange :: "string option"
  q_ratingRange :: "string option"

definition isValidSortBy :: "SearchQuery \<Rightarrow> bool" where
  "isValidSortBy q =
     (q_sortBy q \<in> set [''relevance'', ''price_low'', ''price_high'', ''rating'', ''popularity'',
                        ''newest''])"

definition validate :: "SearchQuery \<Rightarrow> error + unit" where
  "validate q =
     (if truthy_num (q_minPrice q) \<and> truthy_num (q_maxPrice q)
         \<and> js_lt (the (q_maxPrice q)) (the (q_minPrice q))
      then Inl (Error ''Minimum price cannot be greater than maximum price'')
      else if truthy_num (q_minRating q)
         \<and> (js_lt (the (q_minRating q)) (Fin 0) \<or> js_lt (Fin 5) (the (q_minRating q)))
      then Inl (Error ''Rating must be between 0 and 5'')
      else if \<not> isValidSortBy q
      then Inl (Error ''Invalid sortBy value. Allowed values: relevance, price_low, price_high, rating, popularity, newest'')
      else Inr ())"

subsection \<open>Whole-word replacement: \<open>s.replace(new RegExp("\\bw\\b", "gi"), r)\<close>\<close>

definition is_word_char :: "char \<Rightarrow> bool" where
  \<comment> \<open>the class \<open>\w\<close>\<close>
  "is_word_char c = (is_alnum c \<or> c = CHR ''_'')"

definition is_word_opt :: "char option \<Rightarrow> bool" where
  "is_word_opt x = (case x of None \<Rightarrow> False | Some c \<Rightarrow> is_word_char c)"

definition word_boundary :: "char option \<Rightarrow> char option \<Rightarrow> bool" where
  \<comment> \<open>\<open>\b\<close> between the character before and the character after a position\<close>
  "word_boundary l r = (is_word_opt l \<noteq> is_word_opt r)"

definition head_opt :: "string \<Rightarrow> char option" where
  "head_opt s = (case s of [] \<Rightarrow> None | c # _ \<Rightarrow> Some c)"

fun startsWith_ci :: "string \<Rightarrow> string \<Rightarrow> bool" where
  \<comment> \<open>\<open>startsWith\<close> under the flag \<open>i\<close>\<close>
  "startsWith_ci s [] = True"
| "startsWith_ci [] (c # t) = False"
| "startsWith_ci (a # s) (c # t) = (lower_char a = lower_char c \<and> startsWith_ci s t)"

definition match_at :: "string \<Rightarrow> char option \<Rightarrow> string \<Rightarrow> bool" where
  \<comment> \<open>does \<open>\bw\b\<close> (ignoring case) match at the start of \<open>s\<close>, \<open>prev\<close> being the
      character before it\<close>
  "match_at w prev s =
     (w \<noteq> [] \<and> startsWith_ci s w
      \<and> word_boundary prev (head_opt s)
      \<and> word_boundary (Some (last (take (length w) s))) (head_opt (drop (length w) s)))"

text \<open>The scan of a global replace: left to right, a match is replaced and the scan goes
  on behind it (\<open>skip\<close> counts the matched characters still to pass).\<close>

fun replace_scan :: "string \<Rightarrow> string \<Rightarrow> nat \<Rightarrow> char option \<Rightarrow> string \<Rightarrow> string" where
  "replace_scan w r skip prev [] = []"
| "replace_scan w r skip prev (c # s) =
     (if skip > 0 then replace_scan w r (skip - 1) (Some c) s
      else if match_at w prev (c # s) then r @ replace_scan w r (length w - 1) (Some c) s
      else c # replace_scan w r 0 (Some c) s)"

definition replace_word :: "string \<Rightarrow> string \<Rightarrow> string \<Rightarrow> string" where
  "replace_word w r s = replace_scan w r 0 None s"

definition apply_table :: "(string \<times> string) list \<Rightarrow> string \<Rightarrow> string" where
  \<comment> \<open>\<open>for (const [k, v] of Object.entries(table)) q = q.replace(..)\<close>\<close>
  "apply_table table q = foldl (\<lambda>acc (k, v). replace_word k v acc) q table"

definition hinglishMap :: "(string \<times> string) list" where
  "hinglishMap =
     [(''sasta'', ''cheap''), (''sastey'', ''cheap''), (''saste'', ''cheap''),
      (''accha'', ''good''), (''achha'', ''good''), (''acche'', ''good''),
      (''best'', ''best''), (''latest'', ''latest''), (''new'', ''new''), (''purana'', ''old''),
      (''phone'', ''phone''), (''mobile'', ''mobile''), (''laptop'', ''laptop''),
      (''headphone'', ''headphone''), (''earphone'', ''earphone''), (''cover'', ''cover''),
      (''case'', ''case''), (''charger'', ''charger''), (''paisa'', ''rupees''),
      (''rupees'', ''rupees''), (''rs'', ''rupees''), (''price'', ''price'')]"

definition misspellingMap :: "(string \<times> string) list" where
  "misspellingMap =
     [(''ifone'', ''iphone''), (''iphone'', ''iphone''), (''samsang'', ''samsung''),
      (''samsoong'', ''samsung''), (''laptop'', ''laptop''), (''leptop'', ''laptop''),
      (''hedphone'', ''headphone''), (''hedphones'', ''headphones''), (''moblile'', ''mobile''),
      (''mobil'', ''mobile''), (''charjer'', ''charger''), (''chargur'', ''charger''),
      (''covr'', ''cover''), (''cver'', ''cover'')]"

definition normalizeHinglishQuery :: "string \<Rightarrow> string" where
  "normalizeHinglishQuery q = apply_table hinglishMap q"

definition correctCommonMisspellings :: "string \<Rightarrow> string" where
  "correctCommonMisspellings q = apply_table misspellingMap q"

definition normalize_query :: "string \<Rightarrow> string" where
  \<comment> \<open>what \<open>normalize()\<close> does to \<open>this.query\<close>\<close>
  "normalize_query q = correctCommonMisspellings (normalizeHinglishQuery (toLowerCase (trim q)))"

definition getSearchTerms :: "SearchQuery \<Rightarrow> string list" where
  "getSearchTerms q =
     filter (\<lambda>t. length t > 1)
       (map (filter is_alnum) (filter (\<lambda>t. length t > 1) (split_ws (q_query q))))"

text \<open>The constructor: the assignments, then \<open>validate()\<close>, then \<open>normalize()\<close>.\<close>

definition assign_params :: "QueryParams \<Rightarrow> SearchQuery" where
  "assign_params ps =
     \<lparr>q_query = or_str (p_query ps) [],
      q_limit = min (or_int (parseInt (p_limit ps)) 20) 100,
      q_offset = max (or_int (parseInt (p_offset ps)) 0) 0,
      q_sortBy = or_str (p_sortBy ps) ''relevance'',
      q_category = p_category ps,
      q_brand = p_brand ps,
      q_minPrice = (if truthy (p_minPrice ps) then Some (parseFloat (p_minPrice ps)) else None),
      q_maxPrice = (if truthy (p_maxPrice ps) then Some (parseFloat (p_maxPrice ps)) else None),
      q_minRating = (if truthy (p_minRating ps) then Some (parseFloat (p_minRating ps)) else None),
      q_inStock = (p_inStock ps = Str ''true''),
      q_priceRange = p_priceRange ps,
      q_ratingRange = p_ratingRange ps\<rparr>"

definition new_SearchQuery :: "QueryParams \<Rightarrow> error + SearchQuery" where
  "new_SearchQuery ps =
     (case validate (assign_params ps) of
        Inl e \<Rightarrow> Inl e
      | Inr _ \<Rightarrow> Inr ((assign_params ps)\<lparr>q_query := normalize_query (q_query (assign_params ps))\<rparr>))"

text \<open>\<open>this.f && product.f.toLowerCase() !== this.f.toLowerCase()\<close>: reading
  \<open>toLowerCase\<close> of an absent product field throws.\<close>

definition field_differs :: "string option \<Rightarrow> string option \<Rightarrow> error + bool" where
  "field_differs qf pf =
     (case qf of
        None \<Rightarrow> Inr False
      | Some c \<Rightarrow>
          if c = [] then Inr False
          else (case pf of None \<Rightarrow> Inl TypeError | Some d \<Rightarrow> Inr (toLowerCase d \<noteq> toLowerCase c)))"

definition matchesFilters :: "SearchQuery \<Rightarrow> Product \<Rightarrow> error + bool" where
  "matchesFilters q p =
     (case field_differs (q_category q) (category p) of
        Inl e \<Rightarrow> Inl e
      | Inr True \<Rightarrow> Inr False
      | Inr False \<Rightarrow>
          (case field_differs (q_brand q) (brand p) of
             Inl e \<Rightarrow> Inl e
           | Inr True \<Rightarrow> Inr False
           | Inr False \<Rightarrow>
               Inr (\<not> (q_minPrice q \<noteq> None \<and> js_lt (Fin (price p)) (the (q_minPrice q)))
                  \<and> \<not> (q_maxPrice q \<noteq> None \<and> js_lt (the (q_maxPrice q)) (Fin (price p)))
                  \<and> \<not> (q_minRating q \<noteq> None \<and> js_lt (Fin (rating p)) (the (q_minRating q)))
                  \<and> \<not> (q_inStock q \<and> stock p \<le> 0))))"

section \<open>InMemoryProductRepository (repositories/ProductRepository.js)\<close>

text \<open>
  A \<open>Map\<close> from keys to \<open>Set\<close>s of product ids.  \<open>AList.update\<close> keeps the place of a
  key that is present and appends a new one, as \<open>Map.set\<close> does.  Logging and the \<open>stats\<close>
  counters are left out.
\<close>

type_synonym 'k index = "('k \<times> nat list) list"

definition set_add :: "nat \<Rightarrow> nat list \<Rightarrow> nat list" where
  "set_add i ids = (if i \<in> set ids then ids else ids @ [i])"

definition index_add :: "'k \<Rightarrow> nat \<Rightarrow> 'k index \<Rightarrow> 'k index" where
  \<comment> \<open>\<open>if (!ix.has(k)) ix.set(k, new Set()); ix.get(k).add(i)\<close>\<close>
  "index_add k i ix =
     AList.update k (set_add i (case map_of ix k of None \<Rightarrow> [] | Some ids \<Rightarrow> ids)) ix"

definition index_remove :: "'k \<Rightarrow> nat \<Rightarrow> 'k index \<Rightarrow> 'k index" where
  \<comment> \<open>\<open>const ids = ix.get(k); if (ids) { ids.delete(i); if (ids.size === 0) ix.delete(k) }\<close>\<close>
  "index_remove k i ix =
     (case map_of ix k of
        None \<Rightarrow> ix
      | Some ids \<Rightarrow>
          if removeAll i ids = [] then AList.delete k ix
          else AList.update k (removeAll i ids) ix)"

record Repo =
  products :: "(nat \<times> Product) list"
  nextId :: nat
  searchIndex :: "string index"
  categoryIndex :: "string index"
  brandIndex :: "string index"
  priceRangeIndex :: "string index"
  ratingBucketIndex :: "string index"
  stockStatusIndex :: "StockStatus index"

definition new_Repo :: Repo where
  "new_Repo = \<lparr>products = [], nextId = 1, searchIndex = [], categoryIndex = [],
               brandIndex = [], priceRangeIndex = [], ratingBucketIndex = [],
               stockStatusIndex = []\<rparr>"

definition extractSearchTerms :: "string \<Rightarrow> string list" where
  "extractSearchTerms txt =
     (if txt = [] then []
      else filter (\<lambda>t. length t > 1)
             (map (filter is_alnum_lower)
                (filter (\<lambda>t. length t > 1) (split_ws (toLowerCase txt)))))"

definition addToSearchIndex :: "Product \<Rightarrow> Repo \<Rightarrow> Repo" where
  "addToSearchIndex p r =
     r\<lparr>searchIndex :=
         foldl (\<lambda>ix t. index_add t (productId p) ix) (searchIndex r)
           (extractSearchTerms (searchableText p))\<rparr>"

definition removeFromSearchIndex :: "Product \<Rightarrow> Repo \<Rightarrow> Repo" where
  "removeFromSearchIndex p r =
     r\<lparr>searchIndex :=
         foldl (\<lambda>ix t. index_remove t (productId p) ix) (searchIndex r)
           (extractSearchTerms (searchableText p))\<rparr>"

definition present :: "string option \<Rightarrow> bool" where
  \<comment> \<open>\<open>if (product.category)\<close>: the field is there and not empty\<close>
  "present x = (case x of None \<Rightarrow> False | Some s \<Rightarrow> s \<noteq> [])"

definition addToCategoryIndex :: "Product \<Rightarrow> Repo \<Rightarrow> Repo" where
  "addToCategoryIndex p r =
     (if present (category p)
      then r\<lparr>categoryIndex := index_add (toLowerCase (the (category p))) (productId p) (categoryIndex r)\<rparr>
      else r)"

definition removeFromCategoryIndex :: "Product \<Rightarrow> Repo \<Rightarrow> Repo" where
  "removeFromCategoryIndex p r =
     (if present (category p)
      then r\<lparr>categoryIndex := index_remove (toLowerCase (the (category p))) (productId p) (categoryIndex r)\<rparr>
      else r)"

definition addToBrandIndex :: "Product \<Rightarrow> Repo \<Rightarrow> Repo" where
  "addToBrandIndex p r =
     (if present (brand p)
      then r\<lparr>brandIndex := index_add (toLowerCase (the (brand p))) (productId p) (brandIndex r)\<rparr>
      else r)"

definition removeFromBrandIndex :: "Product \<Rightarrow> Repo \<Rightarrow> Repo" where
  "removeFromBrandIndex p r =
     (if present (brand p)
      then r\<lparr>brandIndex := index_remove (toLowerCase (the (brand p))) (productId p) (brandIndex r)\<rparr>
      else r)"

definition addToPriceRangeIndex :: "Product \<Rightarrow> Repo \<Rightarrow> Repo" where
  "addToPriceRangeIndex p r =
     r\<lparr>priceRangeIndex := index_add (getPriceRange p) (productId p) (priceRangeIndex r)\<rparr>"

definition removeFromPriceRangeIndex :: "Product \<Rightarrow> Repo \<Rightarrow> Repo" where
  "removeFromPriceRangeIndex p r =
     r\<lparr>priceRangeIndex := index_remove (getPriceRange p) (productId p) (priceRangeIndex r)\<rparr>"

definition addToRatingBucketIndex :: "Product \<Rightarrow> Repo \<Rightarrow> Repo" where
  "addToRatingBucketIndex p r =
     r\<lparr>ratingBucketIndex := index_add (getRatingBucket p) (productId p) (ratingBucketIndex r)\<rparr>"

definition removeFromRatingBucketIndex :: "Product \<Rightarrow> Repo \<Rightarrow> Repo" where
  "removeFromRatingBucketIndex p r =
     r\<lparr>ratingBucketIndex := index_remove (getRatingBucket p) (productId p) (ratingBucketIndex r)\<rparr>"

definition addToStockStatusIndex :: "Product \<Rightarrow> Repo \<Rightarrow> Repo" where
  "addToStockStatusIndex p r =
     r\<lparr>stockStatusIndex := index_add (getStockStatus p) (productId p) (stockStatusIndex r)\<rparr>"

definition removeFromStockStatusIndex :: "Product \<Rightarrow> Repo \<Rightarrow> Repo" where
  "removeFromStockStatusIndex p r =
     r\<lparr>stockStatusIndex := index_remove (getStockStatus p) (productId p) (stockStatusIndex r)\<rparr>"

definition updateIndexes :: "Product \<Rightarrow> Repo \<Rightarrow> Repo" where
  "updateIndexes p r =
     addToStockStatusIndex p (addToRatingBucketIndex p (addToPriceRangeIndex p
       (addToBrandIndex p (addToCategoryIndex p (addToSearchIndex p r)))))"

definition removeFromIndexes :: "Product \<Rightarrow> Repo \<Rightarrow> Repo" where
  "removeFromIndexes p r =
     removeFromStockStatusIndex p (removeFromRatingBucketIndex p (removeFromPriceRangeIndex p
       (removeFromBrandIndex p (removeFromCategoryIndex p (removeFromSearchIndex p r)))))"

text \<open>\<open>add\<close>: \<open>productData.productId || this.nextId++\<close> takes the next id only when the
  data bring none; the counter stays advanced when the constructor then throws.\<close>

definition add :: "int \<Rightarrow> nat \<Rightarrow> ProductData \<Rightarrow> Repo \<Rightarrow> (error + nat) \<times> Repo" where
  "add now genId d r =
     (let fresh = (d_productId d = None \<or> d_productId d = Some 0);
          pid = (if fresh then nextId r else the (d_productId d));
          r1 = (if fresh then r\<lparr>nextId := nextId r + 1\<rparr> else r)
      in case new_Product now genId (d\<lparr>d_productId := Some pid\<rparr>) of
           Inl e \<Rightarrow> (Inl e, r1)
         | Inr p \<Rightarrow>
             (Inr (productId p),
              updateIndexes p (r1\<lparr>products := AList.update (productId p) p (products r1)\<rparr>)))"

text \<open>\<open>{...existingProduct.toJSON(), ...updateData}\<close>: a property of the update data
  replaces the stored one.\<close>

definition orElse :: "'a option \<Rightarrow> 'a option \<Rightarrow> 'a option" where
  "orElse x y = (case x of None \<Rightarrow> y | Some v \<Rightarrow> Some v)"

definition spread :: "ProductData \<Rightarrow> ProductData \<Rightarrow> ProductData" where
  "spread old upd =
     \<lparr>d_productId = orElse (d_productId upd) (d_productId old),
      d_title = orElse (d_title upd) (d_title old),
      d_description = orElse (d_description upd) (d_description old),
      d_category = orElse (d_category upd) (d_category old),
      d_subcategory = orElse (d_subcategory upd) (d_subcategory old),
      d_brand = orElse (d_brand upd) (d_brand old),
      d_model = orElse (d_model upd) (d_model old),
      d_price = orElse (d_price upd) (d_price old),
      d_mrp = orElse (d_mrp upd) (d_mrp old),
      d_currency = orElse (d_currency upd) (d_currency old),
      d_rating = orElse (d_rating upd) (d_rating old),
      d_ratingCount = orElse (d_ratingCount upd) (d_ratingCount old),
      d_stock = orElse (d_stock upd) (d_stock old),
      d_isActive = orElse (d_isActive upd) (d_isActive old),
      d_imageUrls = orElse (d_imageUrls upd) (d_imageUrls old),
      d_metadata = orElse (d_metadata upd) (d_metadata old),
      d_analytics = orElse (d_analytics upd) (d_analytics old),
      d_searchableText = orElse (d_searchableText upd) (d_searchableText old),
      d_tags = orElse (d_tags upd) (d_tags old),
      d_createdAt = orElse (d_createdAt upd) (d_createdAt old),
      d_updatedAt = orElse (d_updatedAt upd) (d_updatedAt old)\<rparr>"

text \<open>\<open>update\<close>: the old index entries are removed before the merged product is
  constructed, so they stay removed when the constructor throws.\<close>

definition update :: "int \<Rightarrow> nat \<Rightarrow> nat \<Rightarrow> ProductData \<Rightarrow> Repo \<Rightarrow> (error + Product) \<times> Repo" where
  "update now genId pid upd r =
     (case map_of (products r) pid of
        None \<Rightarrow> (Inl (NotFound pid), r)
      | Some existing \<Rightarrow>
          (let r1 = removeFromIndexes existing r in
           case new_Product now genId
                  ((spread (toJSON existing) upd)\<lparr>d_productId := Some pid, d_updatedAt := Some now\<rparr>) of
             Inl e \<Rightarrow> (Inl e, r1)
           | Inr p \<Rightarrow> (Inr p, updateIndexes p (r1\<lparr>products := AList.update pid p (products r1)\<rparr>))))"

text \<open>\<open>Product.updateMetadata\<close> regenerates the searchable text from the current fields,
  tags included; \<open>{...this.metadata, ...newMetadata}\<close> keeps the place of a key that is
  there.\<close>

definition Product_updateMetadata :: "int \<Rightarrow> (string \<times> mval) list \<Rightarrow> Product \<Rightarrow> Product" where
  "Product_updateMetadata now newMetadata p =
     (let m = foldl (\<lambda>acc (k, v). AList.update k v acc) (metadata p) newMetadata
      in p\<lparr>metadata := m,
           searchableText :=
             generateSearchableText (Some (title p)) (description p) (brand p) (model p)
               (category p) (subcategory p) (tags p) m,
           updatedAt := now\<rparr>)"

definition updateMetadata :: "int \<Rightarrow> nat \<Rightarrow> (string \<times> mval) list \<Rightarrow> Repo \<Rightarrow> (error + Product) \<times> Repo" where
  "updateMetadata now pid newMetadata r =
     (case map_of (products r) pid of
        None \<Rightarrow> (Inl (NotFound pid), r)
      | Some p \<Rightarrow>
          (let p' = Product_updateMetadata now newMetadata p
           in (Inr p',
               addToSearchIndex p'
                 ((removeFromSearchIndex p r)\<lparr>products := AList.update pid p' (products r)\<rparr>))))"

text \<open>The repository's \<open>search(query, options)\<close>: the union of the postings of the query's
  terms, in the order the ids are met, then one pass per option that is set.\<close>

record SearchOptions =
  o_category :: "string option"
  o_brand :: "string option"
  o_priceRange :: "string option"
  o_ratingRange :: "string option"
  o_inStock :: bool

definition bucket :: "'k index \<Rightarrow> 'k \<Rightarrow> nat list" where
  \<comment> \<open>\<open>ix.get(k) || new Set()\<close>\<close>
  "bucket ix k = (case map_of ix k of None \<Rightarrow> [] | Some ids \<Rightarrow> ids)"

definition repo_search :: "string \<Rightarrow> SearchOptions \<Rightarrow> Repo \<Rightarrow> Product list" where
  "repo_search query opts r =
     (let ids = foldl (\<lambda>acc t. foldl (\<lambda>a i. set_add i a) acc (bucket (searchIndex r) t)) []
                  (extractSearchTerms query);
          ps0 = concat (map (\<lambda>i. case map_of (products r) i of None \<Rightarrow> [] | Some p \<Rightarrow> [p]) ids);
          ps1 = (if present (o_category opts)
                 then filter (\<lambda>p. productId p \<in> set (bucket (categoryIndex r) (toLowerCase (the (o_category opts))))) ps0
                 else ps0);
          ps2 = (if present (o_brand opts)
                 then filter (\<lambda>p. productId p \<in> set (bucket (brandIndex r) (toLowerCase (the (o_brand opts))))) ps1
                 else ps1);
          ps3 = (if present (o_priceRange opts)
                 then filter (\<lambda>p. productId p \<in> set (bucket (priceRangeIndex r) (the (o_priceRange opts)))) ps2
                 else ps2);
          ps4 = (if present (o_ratingRange opts)
                 then filter (\<lambda>p. productId p \<in> set (bucket (ratingBucketIndex r) (the (o_ratingRange opts)))) ps3
                 else ps3)
      in if o_inStock opts
         then filter (\<lambda>p. productId p \<in> set (bucket (stockStatusIndex r) HIGH_STOCK)
                        \<or> productId p \<in> set (bucket (stockStatusIndex r) MEDIUM_STOCK)
                        \<or> productId p \<in> set (bucket (stockStatusIndex r) LOW_STOCK)) ps4
         else ps4)"

section \<open>SearchService: ranking (services/SearchService.js)\<close>

text \<open>\<open>Math.log\<close> is \<open>NaN\<close> below 0 and \<open>-Infinity\<close> at 0.\<close>

definition Math_log :: "real \<Rightarrow> jsnum" where
  "Math_log x = (if x < 0 then NaN else if x = 0 then NegInf else Fin (ln x))"

text \<open>\<open>x + 1\<close> in double precision: the sum is exactly 1 when \<open>x\<close> is at most half a unit
  in the last place away from 0 (ties go to the even neighbour, which is 1), so its
  logarithm is then 0.  Outside that interval the rounded sum lies on the same side of 1
  as the exact one.\<close>

definition add_one :: "real \<Rightarrow> real" where
  "add_one x = (if - (1 / 2 ^ 54) \<le> x \<and> x \<le> 1 / 2 ^ 53 then 1 else x + 1)"

text \<open>The arithmetic of numbers that may be \<open>NaN\<close> or infinite.  A zero divisor is \<open>+0\<close>
  (the only one that occurs is \<open>Math.log(1)\<close>); the second factor of \<open>js_times\<close> is a
  finite number.\<close>

fun js_div :: "jsnum \<Rightarrow> jsnum \<Rightarrow> jsnum" where
  "js_div NaN _ = NaN"
| "js_div _ NaN = NaN"
| "js_div (Fin a) (Fin b) =
     (if b \<noteq> 0 then Fin (a / b) else if a > 0 then PosInf else if a < 0 then NegInf else NaN)"
| "js_div (Fin a) PosInf = Fin 0"
| "js_div (Fin a) NegInf = Fin 0"
| "js_div PosInf (Fin b) = (if b \<ge> 0 then PosInf else NegInf)"
| "js_div NegInf (Fin b) = (if b \<ge> 0 then NegInf else PosInf)"
| "js_div PosInf _ = NaN"
| "js_div NegInf _ = NaN"

fun js_times :: "jsnum \<Rightarrow> real \<Rightarrow> jsnum" where
  "js_times NaN c = NaN"
| "js_times (Fin a) c = Fin (a * c)"
| "js_times PosInf c = (if c > 0 then PosInf else if c < 0 then NegInf else NaN)"
| "js_times NegInf c = (if c > 0 then NegInf else if c < 0 then PosInf else NaN)"

fun js_plus :: "jsnum \<Rightarrow> jsnum \<Rightarrow> jsnum" where
  "js_plus NaN _ = NaN"
| "js_plus _ NaN = NaN"
| "js_plus (Fin a) (Fin b) = Fin (a + b)"
| "js_plus (Fin a) PosInf = PosInf"
| "js_plus (Fin a) NegInf = NegInf"
| "js_plus PosInf NegInf = NaN"
| "js_plus PosInf _ = PosInf"
| "js_plus NegInf PosInf = NaN"
| "js_plus NegInf _ = NegInf"

fun lev_row :: "char \<Rightarrow> string \<Rightarrow> nat list \<Rightarrow> nat \<Rightarrow> nat list" where
  "lev_row c (a # s1) (d # u # row) left =
     (let v = (if c = a then d else min (min (d + 1) (left + 1)) (u + 1))
      in v # lev_row c s1 (u # row) v)"
| "lev_row c s1 row left = []"

text \<open>The matrix is filled row by row; row \<open>i\<close> belongs to the \<open>i\<close>-th character of
  \<open>str2\<close>, and the result is the last cell of the last row.\<close>

definition levenshteinDistance :: "string \<Rightarrow> string \<Rightarrow> nat" where
  "levenshteinDistance str1 str2 =
     last (foldl (\<lambda>row (i, c). i # lev_row c str1 row i) [0 ..< length str1 + 1]
             (zip [1 ..< length str2 + 1] str2))"

definition calculateFuzzyMatch :: "string \<Rightarrow> string \<Rightarrow> real" where
  "calculateFuzzyMatch trm txt =
     (if trm = [] \<or> txt = [] then 0
      else
        (let distance = levenshteinDistance trm txt;
             maxLength = max (length trm) (length txt);
             similarity = 1 - real distance / real maxLength
         in if maxLength = 0 then 0 else if similarity > 7 / 10 then similarity else 0))"

definition termRelevance :: "Product \<Rightarrow> string \<Rightarrow> real" where
  \<comment> \<open>the body of the loop over the query terms\<close>
  "termRelevance p trm =
     (let ttl = toLowerCase (title p);
          desc = toLowerCase (or_str (description p) []);
          stext = toLowerCase (searchableText p)
      in (if str_includes ttl trm then
            (if ttl = trm then 1 else if startsWith ttl trm \<or> endsWith ttl trm then 8 / 10 else 6 / 10)
          else 0)
         + (if str_includes desc trm then 4 / 10 else 0)
         + (if str_includes stext trm then 2 / 10 else 0)
         + calculateFuzzyMatch trm ttl * (3 / 10))"

definition calculateTextRelevance :: "Product \<Rightarrow> SearchQuery \<Rightarrow> real" where
  "calculateTextRelevance p q =
     (if q_query q = [] then 1 / 2
      else
        (let queryTerms = getSearchTerms q
         in if queryTerms = [] then 0
            else foldl (\<lambda>total t. total + min 1 (termRelevance p t)) 0 queryTerms
                 / real (length queryTerms)))"

definition calculateQualityScore :: "Product \<Rightarrow> real" where
  "calculateQualityScore p =
     (let ratingScore = rating p / 5;
          rr = num_or (returnRate (analytics p)) (1 / 10);
          returnScore = 1 - min 1 rr
      in ratingScore * (6 / 10) + returnScore * (4 / 10))"

definition getMaxUnitsSold :: "Repo \<Rightarrow> real" where
  "getMaxUnitsSold r =
     (let m = foldl (\<lambda>mx p. if num_or (unitsSold (analytics p)) 0 > mx
                             then num_or (unitsSold (analytics p)) 0 else mx)
                0 (map snd (products r))
      in if m = 0 then 10000 else m)"

definition getMaxReviews :: "Repo \<Rightarrow> real" where
  "getMaxReviews r =
     (let m = foldl (\<lambda>mx p. if ratingCount p > mx then ratingCount p else mx) 0 (map snd (products r))
      in if m = 0 then 1000 else m)"

definition log_ratio :: "real \<Rightarrow> real \<Rightarrow> jsnum" where
  \<comment> \<open>\<open>m > 0 ? Math.log(x + 1) / Math.log(m + 1) : 0\<close>\<close>
  "log_ratio x m =
     (if m > 0 then js_div (Math_log (add_one x)) (Math_log (add_one m)) else Fin 0)"

definition calculatePopularityScore :: "Repo \<Rightarrow> Product \<Rightarrow> jsnum" where
  "calculatePopularityScore r p =
     (let salesScore = log_ratio (num_or (unitsSold (analytics p)) 0) (getMaxUnitsSold r);
          reviewScore = log_ratio (ratingCount p) (getMaxReviews r)
      in js_plus (js_times salesScore (7 / 10)) (js_times reviewScore (3 / 10)))"

definition calculateBusinessScore :: "Product \<Rightarrow> real" where
  "calculateBusinessScore p =
     (let stockScore = (if stock p > 0
                        then (if stock p > 100 then 1 else if stock p > 10 then 8 / 10
                              else if stock p > 0 then 1 / 2 else 0)
                        else 0);
          priceScore = min 1 (calculateDiscount p / 50);
          profitScore = min 1 (num_or (profitMargin (analytics p)) (2 / 10) / (1 / 2))
      in stockScore * (1 / 2) + priceScore * (3 / 10) + profitScore * (2 / 10))"

definition popularBrands :: "string list" where
  "popularBrands = [''apple'', ''samsung'', ''oneplus'', ''xiaomi'', ''dell'', ''hp'']"

definition brand_in :: "string list \<Rightarrow> Product \<Rightarrow> bool" where
  \<comment> \<open>\<open>list.includes(product.brand?.toLowerCase())\<close>\<close>
  "brand_in bs p = (case brand p of None \<Rightarrow> False | Some b \<Rightarrow> toLowerCase b \<in> set bs)"

definition boost :: "bool \<Rightarrow> real \<Rightarrow> jsnum \<Rightarrow> jsnum" where
  \<comment> \<open>\<open>if (c) boostedScore *= f\<close>\<close>
  "boost c f score = (if c then js_times score f else score)"

definition applyBoostFactors :: "jsnum \<Rightarrow> Product \<Rightarrow> jsnum" where
  "applyBoostFactors baseScore p =
     boost (price p \<ge> 5000 \<and> price p \<le> 30000) (11 / 10)
       (boost (brand_in popularBrands p) (105 / 100)
          (boost (num_or (profitMargin (analytics p)) 0 > 3 / 10) (11 / 10)
             (boost (stock p > 0 \<and> stock p \<le> 10) (105 / 100)
                (boost (isOnSale (analytics p)) (115 / 100)
                   (boost (isTrending (analytics p)) (11 / 10) baseScore)))))"

text \<open>\<open>Math.max(0, Math.min(1, score))\<close>: \<open>NaN\<close> stays \<open>NaN\<close> (the result \<open>None\<close>),
  \<open>-Infinity\<close> becomes 0 and \<open>Infinity\<close> becomes 1.\<close>

fun clamp01 :: "jsnum \<Rightarrow> real option" where
  "clamp01 NaN = None"
| "clamp01 (Fin score) = Some (max 0 (min 1 score))"
| "clamp01 PosInf = Some 1"
| "clamp01 NegInf = Some 0"

text \<open>The four weighted parts are added to \<open>score\<close> one after the other; the result is
  \<open>None\<close> when the score is \<open>NaN\<close>.\<close>

definition calculateRelevanceScore :: "Repo \<Rightarrow> Product \<Rightarrow> SearchQuery \<Rightarrow> real option" where
  "calculateRelevanceScore r p q =
     clamp01 (applyBoostFactors
       (js_plus
          (js_plus (Fin (calculateTextRelevance p q * (4 / 10) + calculateQualityScore p * (25 / 100)))
             (js_times (calculatePopularityScore r p) (2 / 10)))
          (Fin (calculateBusinessScore p * (15 / 100)))) p)"

section \<open>SearchService: search, projection and cache\<close>

text \<open>
  What \<open>performSearch\<close> sorts and projects: a \<open>Product\<close> instance, which has the
  prototype's methods, or the plain object \<open>{...product, relevanceScore}\<close>, which has the
  product's own properties and the score (\<open>None\<close>: not a finite number) but no methods.
\<close>

datatype candidate = Instance Product | Plain Product "real option"

fun has_toSearchResult :: "candidate \<Rightarrow> bool" where
  "has_toSearchResult (Instance p) = True"
| "has_toSearchResult (Plain p s) = False"

fun props :: "candidate \<Rightarrow> Product" where
  "props (Instance p) = p"
| "props (Plain p s) = p"

fun relevanceScore :: "candidate \<Rightarrow> real option" where
  \<comment> \<open>an instance has no such property\<close>
  "relevanceScore (Instance p) = None"
| "relevanceScore (Plain p s) = s"

record SearchResult =
  r_productId :: nat
  r_title :: string
  r_description :: "string option"
  r_price :: real
  r_mrp :: "real option"
  r_currency :: string
  r_discount :: real
  r_rating :: real
  r_ratingCount :: real
  r_stock :: real
  r_stockStatus :: StockStatus
  r_brand :: "string option"
  r_category :: "string option"
  r_imageUrls :: "string list"
  r_metadata :: "(string \<times> mval) list"
  r_relevanceScore :: real
  r_tags :: "string list"

text \<open>\<open>Product.toSearchResult(query, relevanceScore = 0)\<close>\<close>

definition toSearchResult :: "Product \<Rightarrow> real \<Rightarrow> SearchResult" where
  "toSearchResult p score =
     \<lparr>r_productId = productId p, r_title = title p, r_description = description p,
      r_price = price p, r_mrp = mrp p, r_currency = currency p,
      r_discount = calculateDiscount p, r_rating = rating p, r_ratingCount = ratingCount p,
      r_stock = stock p, r_stockStatus = getStockStatus p, r_brand = brand p,
      r_category = category p, r_imageUrls = take 3 (imageUrls p), r_metadata = metadata p,
      r_relevanceScore = Math_round (score * 100) / 100, r_tags = tags p\<rparr>"

definition score_or_0 :: "real option \<Rightarrow> real" where
  \<comment> \<open>\<open>relevanceScore || 0\<close>\<close>
  "score_or_0 s = (case s of None \<Rightarrow> 0 | Some v \<Rightarrow> v)"

text \<open>The mapping at the end of \<open>performSearch\<close>: \<open>toSearchResult\<close> for an object that
  has the method, the projection written out in place otherwise.\<close>

definition project :: "candidate \<Rightarrow> SearchResult" where
  "project c =
     (if has_toSearchResult c then toSearchResult (props c) (score_or_0 (relevanceScore c))
      else
        (let p = props c in
         \<lparr>r_productId = productId p, r_title = title p, r_description = description p,
          r_price = price p, r_mrp = mrp p, r_currency = or_str (Some (currency p)) ''INR'',
          r_discount = (case mrp p of
                          None \<Rightarrow> 0
                        | Some m \<Rightarrow> if m = 0 then 0 else Math_round ((m - price p) / m * 100)),
          r_rating = rating p, r_ratingCount = ratingCount p, r_stock = stock p,
          r_stockStatus = (if stock p = 0 then OUT_OF_STOCK
                           else if stock p \<le> 10 then LOW_STOCK else HIGH_STOCK),
          r_brand = brand p, r_category = category p, r_imageUrls = take 3 (imageUrls p),
          r_metadata = metadata p,
          r_relevanceScore = Math_round (score_or_0 (relevanceScore c) * 100) / 100,
          r_tags = tags p\<rparr>))"

definition getSortFunction :: "SearchQuery \<Rightarrow> candidate \<Rightarrow> candidate \<Rightarrow> real" where
  "getSortFunction q a b =
     (if q_sortBy q = ''price_low'' then price (props a) - price (props b)
      else if q_sortBy q = ''price_high'' then price (props b) - price (props a)
      else if q_sortBy q = ''rating'' then
        (if rating (props b) - rating (props a) \<noteq> 0 then rating (props b) - rating (props a)
         else ratingCount (props b) - ratingCount (props a))
      else if q_sortBy q = ''popularity'' then
        num_or (unitsSold (analytics (props b))) 0 - num_or (unitsSold (analytics (props a))) 0
      else if q_sortBy q = ''newest'' then real_of_int (createdAt (props b) - createdAt (props a))
      else score_or_0 (relevanceScore b) - score_or_0 (relevanceScore a))"

text \<open>\<open>Array.prototype.sort\<close> is stable: an element goes in front of the first later
  element that the comparator does not put before it.\<close>

fun insert_by :: "('a \<Rightarrow> 'a \<Rightarrow> real) \<Rightarrow> 'a \<Rightarrow> 'a list \<Rightarrow> 'a list" where
  "insert_by cmp x [] = [x]"
| "insert_by cmp x (y # ys) = (if cmp x y \<le> 0 then x # y # ys else y # insert_by cmp x ys)"

definition js_sort :: "('a \<Rightarrow> 'a \<Rightarrow> real) \<Rightarrow> 'a list \<Rightarrow> 'a list" where
  "js_sort cmp xs = foldr (insert_by cmp) xs []"

text \<open>\<open>xs.slice(start, end)\<close>: a negative index counts from the end of the array.\<close>

definition slice_index :: "nat \<Rightarrow> int \<Rightarrow> nat" where
  "slice_index n i = (if i < 0 then nat (max (int n + i) 0) else min (nat i) n)"

definition slice :: "int \<Rightarrow> int \<Rightarrow> 'a list \<Rightarrow> 'a list" where
  "slice start end xs =
     (let s = slice_index (length xs) start; e = slice_index (length xs) end
      in take (e - s) (drop s xs))"

record Filters =
  f_category :: "string option"
  f_brand :: "string option"
  f_minPrice :: "jsnum option"
  f_maxPrice :: "jsnum option"
  f_minRating :: "jsnum option"
  f_inStock :: bool

record Pagination =
  pg_limit :: int
  pg_offset :: int
  hasNext :: bool
  hasPrevious :: bool

record SearchResponse =
  res_data :: "SearchResult list"
  totalResults :: nat
  res_query :: string
  res_filters :: Filters
  pagination :: Pagination
  res_sortBy :: string
  executionTime :: int

text \<open>\<open>products.filter((product) => searchQuery.matchesFilters(product))\<close> stops at the
  first product on which the predicate throws.\<close>

fun filter_matches :: "SearchQuery \<Rightarrow> Product list \<Rightarrow> error + Product list" where
  "filter_matches q [] = Inr []"
| "filter_matches q (p # ps) =
     (case matchesFilters q p of
        Inl e \<Rightarrow> Inl e
      | Inr b \<Rightarrow>
          (case filter_matches q ps of
             Inl e \<Rightarrow> Inl e
           | Inr rest \<Rightarrow> Inr (if b then p # rest else rest)))"

text \<open>\<open>performSearch\<close>; \<open>t0\<close> and \<open>t1\<close> are the two readings of \<open>Date.now()\<close> behind
  \<open>executionTime\<close>.\<close>

definition candidates :: "Repo \<Rightarrow> SearchQuery \<Rightarrow> Product list" where
  "candidates r q =
     (if q_query q \<noteq> [] then
        repo_search (q_query q)
          \<lparr>o_category = q_category q, o_brand = q_brand q, o_priceRange = q_priceRange q,
           o_ratingRange = q_ratingRange q, o_inStock = q_inStock q\<rparr> r
      else map snd (products r))"

definition scored :: "Repo \<Rightarrow> SearchQuery \<Rightarrow> Product list \<Rightarrow> candidate list" where
  \<comment> \<open>\<open>products.map((product) => ({...product, relevanceScore: ..}))\<close>\<close>
  "scored r q matching = map (\<lambda>p. Plain p (calculateRelevanceScore r p q)) matching"

definition performSearch :: "int \<Rightarrow> int \<Rightarrow> Repo \<Rightarrow> SearchQuery \<Rightarrow> error + SearchResponse" where
  "performSearch t0 t1 r q =
     (case filter_matches q (candidates r q) of
        Inl e \<Rightarrow> Inl e
      | Inr matching \<Rightarrow>
          (let sorted = js_sort (getSortFunction q) (scored r q matching);
               total = length sorted
           in Inr \<lparr>res_data = map project (slice (q_offset q) (q_offset q + q_limit q) sorted),
                   totalResults = total,
                   res_query = q_query q,
                   res_filters = \<lparr>f_category = q_category q, f_brand = q_brand q,
                                  f_minPrice = q_minPrice q, f_maxPrice = q_maxPrice q,
                                  f_minRating = q_minRating q, f_inStock = q_inStock q\<rparr>,
                   pagination = \<lparr>pg_limit = q_limit q, pg_offset = q_offset q,
                                 hasNext = (q_offset q + q_limit q < int total),
                                 hasPrevious = (q_offset q > 0)\<rparr>,
                   res_sortBy = q_sortBy q,
                   executionTime = t1 - t0\<rparr>))"

subsection \<open>The result cache\<close>

text \<open>
  The cache key is the Base64 form of \<open>JSON.stringify(searchQuery.toJSON())\<close>, which is
  determined by, and determines, the props below: \<open>JSON.stringify\<close> writes a number that
  is not finite as \<open>null\<close> and leaves out an \<open>undefined\<close> property.
\<close>

record CacheKey =
  k_query :: string
  k_limit :: int
  k_offset :: int
  k_sortBy :: string
  k_category :: "string option"
  k_brand :: "string option"
  k_minPrice :: "real option"
  k_maxPrice :: "real option"
  k_minRating :: "real option"
  k_inStock :: bool
  k_priceRange :: "string option"
  k_ratingRange :: "string option"

definition json_num :: "jsnum option \<Rightarrow> real option" where
  "json_num x = (case x of Some (Fin r) \<Rightarrow> Some r | _ \<Rightarrow> None)"

definition generateCacheKey :: "SearchQuery \<Rightarrow> CacheKey" where
  "generateCacheKey q =
     \<lparr>k_query = q_query q, k_limit = q_limit q, k_offset = q_offset q, k_sortBy = q_sortBy q,
      k_category = q_category q, k_brand = q_brand q, k_minPrice = json_num (q_minPrice q),
      k_maxPrice = json_num (q_maxPrice q), k_minRating = json_num (q_minRating q),
      k_inStock = q_inStock q, k_priceRange = q_priceRange q, k_ratingRange = q_ratingRange q\<rparr>"

record CacheEntry =
  ce_data :: SearchResponse
  ce_timestamp :: int

type_synonym cache = "(CacheKey \<times> CacheEntry) list"

record SearchService =
  productRepository :: Repo
  searchCache :: cache
  hits :: nat
  misses :: nat
  evictions :: nat

definition maxCacheSize :: nat where
  "maxCacheSize = 1000"

definition new_SearchService :: "Repo \<Rightarrow> SearchService" where
  "new_SearchService r = \<lparr>productRepository = r, searchCache = [], hits = 0, misses = 0, evictions = 0\<rparr>"

text \<open>\<open>getFromCache\<close>; \<open>now\<close> is its reading of \<open>Date.now()\<close>.\<close>

definition getFromCache :: "CacheKey \<Rightarrow> int \<Rightarrow> SearchService \<Rightarrow> SearchResponse option \<times> SearchService" where
  "getFromCache key now s =
     (case map_of (searchCache s) key of
        None \<Rightarrow> (None, s)
      | Some cached \<Rightarrow>
          if now - ce_timestamp cached < 300000 then (Some (ce_data cached), s)
          else (None, s\<lparr>searchCache := AList.delete key (searchCache s)\<rparr>))"

text \<open>\<open>addToCache\<close>: \<open>keys().next().value\<close> is the first key in insertion order.\<close>

definition addToCache :: "CacheKey \<Rightarrow> SearchResponse \<Rightarrow> int \<Rightarrow> SearchService \<Rightarrow> SearchService" where
  "addToCache key d now s =
     (let s1 = (if length (searchCache s) \<ge> maxCacheSize
                then s\<lparr>searchCache := (case searchCache s of
                                          [] \<Rightarrow> []
                                        | (firstKey, _) # _ \<Rightarrow> AList.delete firstKey (searchCache s)),
                       evictions := evictions s + 1\<rparr>
                else s)
      in s1\<lparr>searchCache := AList.update key \<lparr>ce_data = d, ce_timestamp = now\<rparr> (searchCache s1)\<rparr>)"

text \<open>\<open>search\<close>.  The clock readings are those of \<open>getFromCache\<close>, of \<open>performSearch\<close>
  (two) and of \<open>addToCache\<close>.\<close>

record Clock =
  t_get :: int
  t_start :: int
  t_end :: int
  t_put :: int

definition search :: "Clock \<Rightarrow> QueryParams \<Rightarrow> SearchService \<Rightarrow> (error + SearchResponse) \<times> SearchService" where
  "search clk ps s =
     (case new_SearchQuery ps of
        Inl e \<Rightarrow> (Inl e, s)
      | Inr q \<Rightarrow>
          (case getFromCache (generateCacheKey q) (t_get clk) s of
             (Some cachedResult, s1) \<Rightarrow> (Inr cachedResult, s1\<lparr>hits := hits s1 + 1\<rparr>)
           | (None, s1) \<Rightarrow>
               (let s2 = s1\<lparr>misses := misses s1 + 1\<rparr> in
                case performSearch (t_start clk) (t_end clk) (productRepository s2) q of
                  Inl e \<Rightarrow> (Inl e, s2)
                | Inr searchResults \<Rightarrow>
                    (Inr searchResults,
                     addToCache (generateCacheKey q) searchResults (t_put clk) s2))))"

section \<open>SearchService with festive seasons: ranking\<close>

text \<open>
  The second \<open>SearchService\<close> of the repository scores with the calendar.  \<open>now\<close> is the
  clock reading, \<open>yearStart\<close> the time stamp of 1 January, 00:00 UTC, of the year that
  \<open>now.getFullYear()\<close> returns, and \<open>leapYear\<close> says whether that year has a 29 February;
  \<open>new Date(`${currentYear}-MM-DD`)\<close> is midnight UTC of that day.
\<close>

record Env =
  now :: int
  yearStart :: int
  leapYear :: bool

definition days_before_month :: "nat \<Rightarrow> nat" where
  "days_before_month m = [0, 31, 59, 90, 120, 151, 181, 212, 243, 273, 304, 334] ! (m - 1)"

definition date_of :: "Env \<Rightarrow> nat \<Rightarrow> nat \<Rightarrow> int" where
  "date_of env m d =
     yearStart env
     + int (days_before_month m + (if leapYear env \<and> m > 2 then 1 else 0) + (d - 1)) * 86400000"

record Season =
  name :: string
  startDate :: int
  endDate :: int
  peakDate :: int
  categories :: "string list"
  seasonKeywords :: "string list"

definition festiveSeason :: "Env \<Rightarrow> Season list" where
  "festiveSeason env =
     [\<lparr>name = ''Diwali'', startDate = date_of env 10 15, endDate = date_of env 11 15,
       peakDate = date_of env 11 1,
       categories = [''electronics'', ''fashion'', ''home-decor'', ''jewelry'', ''gifts''],
       seasonKeywords = [''diwali'', ''deepavali'', ''lights'', ''rangoli'', ''sweets'', ''gifts'']\<rparr>,
      \<lparr>name = ''Dussehra'', startDate = date_of env 9 20, endDate = date_of env 10 20,
       peakDate = date_of env 10 5,
       categories = [''traditional-wear'', ''jewelry'', ''home-decor'', ''electronics''],
       seasonKeywords = [''dussehra'', ''navratri'', ''garba'', ''traditional'']\<rparr>,
      \<lparr>name = ''Christmas'', startDate = date_of env 12 1, endDate = date_of env 12 31,
       peakDate = date_of env 12 25,
       categories = [''gifts'', ''electronics'', ''fashion'', ''toys''],
       seasonKeywords = [''christmas'', ''xmas'', ''gifts'', ''celebration'']\<rparr>,
      \<lparr>name = ''Valentine'', startDate = date_of env 2 1, endDate = date_of env 2 20,
       peakDate = date_of env 2 14,
       categories = [''gifts'', ''jewelry'', ''fashion'', ''flowers''],
       seasonKeywords = [''valentine'', ''love'', ''romantic'', ''couple'', ''gifts'']\<rparr>]"

definition getCurrentFestiveSeason :: "Env \<Rightarrow> Season option" where
  "getCurrentFestiveSeason env =
     find (\<lambda>season. now env \<ge> startDate season \<and> now env \<le> endDate season) (festiveSeason env)"

definition thirtyDays :: int where
  "thirtyDays = 30 * 24 * 60 * 60 * 1000"

definition isNewProduct :: "Env \<Rightarrow> Product \<Rightarrow> bool" where
  "isNewProduct env p =
     (now env - createdAt p < thirtyDays
      \<or> num_or (unitsSold (analytics p)) 0 < 10
      \<or> ratingCount p < 5)"

definition isDateInFestiveRange :: "int \<Rightarrow> Season \<Rightarrow> bool" where
  "isDateInFestiveRange date season = (date \<ge> startDate season \<and> date \<le> endDate season)"

definition festiveCategories :: "string list" where
  "festiveCategories =
     [''diwali'', ''dussehra'', ''holi'', ''christmas'', ''eid'', ''rakhi'', ''karva-chauth'',
      ''ganesh-chaturthi'', ''navratri'', ''valentine'']"

definition festiveKeywords :: "string list" where
  "festiveKeywords =
     [''festive'', ''celebration'', ''gift'', ''traditional'', ''ethnic'', ''decoration'', ''pooja'',
      ''wedding'', ''party'', ''special occasion'']"

definition isFestiveProduct :: "Env \<Rightarrow> Product \<Rightarrow> bool" where
  "isFestiveProduct env p =
     (if list_ex (\<lambda>fc. str_includes (toLowerCase (or_str (category p) [])) fc) festiveCategories
      then True
      else if list_ex (\<lambda>tag. tag \<in> set festiveCategories \<or> tag \<in> set festiveKeywords)
                (map toLowerCase (tags p))
      then True
      else if list_ex (\<lambda>keyword. str_includes
                  (toLowerCase (title p @ '' '' @ or_str (description p) [])) keyword)
                festiveKeywords
      then True
      else (case getCurrentFestiveSeason env of
              None \<Rightarrow> False
            | Some season \<Rightarrow> isDateInFestiveRange (createdAt p) season))"

definition category_in :: "string list \<Rightarrow> Product \<Rightarrow> bool" where
  \<comment> \<open>\<open>list.includes(product.category?.toLowerCase())\<close>\<close>
  "category_in cs p = (case category p of None \<Rightarrow> False | Some c \<Rightarrow> toLowerCase c \<in> set cs)"

definition productText :: "Product \<Rightarrow> string" where
  "productText p =
     toLowerCase (title p @ '' '' @ or_str (description p) [] @ '' '' @ join_sp (tags p))"

text \<open>Every season of the table has keywords, so the quotient below is a quotient by a
  positive length.\<close>

definition getSeasonMatchScore :: "Product \<Rightarrow> Season \<Rightarrow> real" where
  "getSeasonMatchScore p season =
     min 1 ((if category_in (categories season) p then 1 / 2 else 0)
            + real (length (filter (\<lambda>keyword. str_includes (productText p) keyword) (seasonKeywords season)))
              / real (length (seasonKeywords season)) * (1 / 2))"

definition getQuerySeasonalScore :: "SearchQuery \<Rightarrow> Season \<Rightarrow> real" where
  "getQuerySeasonalScore q season =
     (if q_query q = [] then 3 / 10
      else if length (filter (\<lambda>keyword. str_includes (toLowerCase (q_query q)) keyword)
                        (seasonKeywords season)) > 0
      then 8 / 10 else 2 / 10)"

definition daysToPeak :: "Env \<Rightarrow> Season \<Rightarrow> real" where
  \<comment> \<open>\<open>Math.abs(peakDate - now) / (1000 * 60 * 60 * 24)\<close>\<close>
  "daysToPeak env season = real_of_int \<bar>peakDate season - now env\<bar> / (1000 * 60 * 60 * 24)"

definition getTimeProximityScore :: "Env \<Rightarrow> Season \<Rightarrow> real" where
  "getTimeProximityScore env season =
     (if daysToPeak env season \<le> 3 then 1
      else if daysToPeak env season \<le> 7 then 8 / 10
      else if daysToPeak env season \<le> 14 then 6 / 10
      else 3 / 10)"

definition calculateSeasonalRelevance :: "Env \<Rightarrow> Product \<Rightarrow> SearchQuery \<Rightarrow> real" where
  "calculateSeasonalRelevance env p q =
     (case getCurrentFestiveSeason env of
        None \<Rightarrow> 3 / 10
      | Some currentSeason \<Rightarrow>
          min 1 (getSeasonMatchScore p currentSeason * (4 / 10)
                 + getQuerySeasonalScore q currentSeason * (3 / 10)
                 + getTimeProximityScore env currentSeason * (3 / 10)))"

definition calculateAttributeScore :: "Product \<Rightarrow> SearchQuery \<Rightarrow> real" where
  "calculateAttributeScore p q =
     min 1
       ((if q_query q \<noteq> [] \<and> present (brand p)
            \<and> (str_includes (toLowerCase (q_query q)) (toLowerCase (the (brand p)))
                \<or> str_includes (toLowerCase (the (brand p))) (toLowerCase (q_query q)))
         then 3 / 10 else 0)
        + (if present (q_category q) \<and> category p = q_category q then 4 / 10 else 0)
        + (case mrp p of
             None \<Rightarrow> 0
           | Some m \<Rightarrow> if m \<noteq> 0 \<and> price p < m
                       then min (3 / 10) ((m - price p) / m * 100 / 100) else 0))"

definition premiumBrands :: "string list" where
  "premiumBrands = [''apple'', ''samsung'', ''oneplus'', ''dell'', ''hp'', ''sony'']"

definition trustedBrands :: "string list" where
  "trustedBrands = [''xiaomi'', ''realme'', ''lenovo'', ''asus'', ''lg'']"

definition calculateInitialQualityScore :: "Product \<Rightarrow> real" where
  "calculateInitialQualityScore p =
     min 1
       (1 / 2
        + (if brand_in premiumBrands p then 3 / 10 else if brand_in trustedBrands p then 2 / 10 else 0)
        + ((if length (or_str (description p) []) > 50 then 1 / 10 else 0)
           + (if length (imageUrls p) \<ge> 3 then 1 / 10 else 0)
           + (if length (tags p) > 0 then 5 / 100 else 0)
           + (if length (metadata p) > 3 then 5 / 100 else 0)))"

definition isGiftCategory :: "Product \<Rightarrow> bool" where
  "isGiftCategory p =
     category_in [''gifts'', ''jewelry'', ''electronics'', ''fashion'', ''toys'', ''books''] p"

definition calculateFestiveUrgencyScore :: "Env \<Rightarrow> Product \<Rightarrow> real" where
  "calculateFestiveUrgencyScore env p =
     (case getCurrentFestiveSeason env of
        None \<Rightarrow> 2 / 10
      | Some currentSeason \<Rightarrow>
          (let totalDuration = endDate currentSeason - startDate currentSeason;
               timeLeft = endDate currentSeason - now env
           in if timeLeft \<le> 0 then 0
              else min 1 (1 - real_of_int timeLeft / real_of_int totalDuration
                          + (if isGiftCategory p then 2 / 10 else 0))))"

definition times_if :: "bool \<Rightarrow> real \<Rightarrow> real \<Rightarrow> real" where
  \<comment> \<open>\<open>if (c) boost *= f\<close> on the finite multiplier of \<open>calculateSeasonalBoost\<close>\<close>
  "times_if c f b = (if c then b * f else b)"

definition calculateSeasonalBoost :: "Env \<Rightarrow> Product \<Rightarrow> Season \<Rightarrow> real" where
  "calculateSeasonalBoost env p season =
     times_if (isNewProduct env p) (115 / 100)
       (times_if (category_in (categories season) p) (11 / 10)
          (if daysToPeak env season \<le> 3 then 14 / 10
           else if daysToPeak env season \<le> 7 then 13 / 10
           else if daysToPeak env season \<le> 14 then 12 / 10
           else 11 / 10))"

definition giftIndicators :: "string list" where
  "giftIndicators =
     [''gift wrap'', ''gift packaging'', ''gift card'', ''express delivery'', ''same day delivery'',
      ''gift box'', ''premium packaging'']"

definition isGiftReady :: "Product \<Rightarrow> bool" where
  "isGiftReady p =
     (list_ex (\<lambda>indicator. str_includes (productText p) indicator) giftIndicators
      \<or> map_of (metadata p) ''isGiftWrapped'' = Some (MBool True)
      \<or> map_of (metadata p) ''hasExpressDelivery'' = Some (MBool True))"

definition festive_applyBoostFactors :: "Env \<Rightarrow> jsnum \<Rightarrow> Product \<Rightarrow> jsnum" where
  "festive_applyBoostFactors env baseScore p =
     (let productAge = now env - createdAt p;
          currentSeason = getCurrentFestiveSeason env
      in boost (price p \<ge> 5000 \<and> price p \<le> 30000) (11 / 10)
           (boost (brand_in popularBrands p) (105 / 100)
              (boost (num_or (profitMargin (analytics p)) 0 > 3 / 10) (11 / 10)
                 (boost (stock p > 0 \<and> stock p \<le> 10)
                    (if currentSeason \<noteq> None then 115 / 100 else 105 / 100)
                    (boost (currentSeason \<noteq> None \<and> isGiftReady p) (12 / 10)
                       (boost (isOnSale (analytics p)) (115 / 100)
                          (boost (isTrending (analytics p)) (11 / 10)
                             (boost (currentSeason \<noteq> None \<and> isFestiveProduct env p)
                                (case currentSeason of
                                   None \<Rightarrow> 1
                                 | Some season \<Rightarrow> calculateSeasonalBoost env p season)
                                (boost (productAge < thirtyDays)
                                   (1 + max (1 / 10)
                                          (1 - real_of_int productAge / real_of_int thirtyDays * (1 / 2)))
                                   baseScore)))))))))"

definition festive_calculateRelevanceScore ::
  "Env \<Rightarrow> Repo \<Rightarrow> Product \<Rightarrow> SearchQuery \<Rightarrow> real option" where
  "festive_calculateRelevanceScore env r p q =
     (let score =
        (if isFestiveProduct env p \<and> isNewProduct env p then
           Fin (calculateTextRelevance p q * (35 / 100)
                + calculateSeasonalRelevance env p q * (35 / 100)
                + calculateFestiveUrgencyScore env p * (15 / 100)
                + calculateAttributeScore p q * (15 / 100))
         else if isNewProduct env p then
           Fin (calculateTextRelevance p q * (6 / 10)
                + calculateAttributeScore p q * (25 / 100)
                + calculateInitialQualityScore p * (15 / 100))
         else
           (let existing =
              js_plus
                (js_plus
                   (Fin (calculateTextRelevance p q * (4 / 10) + calculateQualityScore p * (25 / 100)))
                   (js_times (calculatePopularityScore r p) (2 / 10)))
                (Fin (calculateBusinessScore p * (15 / 100)))
            in if isFestiveProduct env p
               then js_plus existing (Fin (calculateSeasonalRelevance env p q * (1 / 10)))
               else existing))
      in clamp01 (festive_applyBoostFactors env score p))"

section \<open>Specification-level notions and sample data\<close>

text \<open>The data model's sign constraint on the two counts that the popularity score takes
  the logarithm of.  Neither \<open>Product.validate\<close> nor the repository checks it.\<close>

definition nonneg_counts :: "Product \<Rightarrow> bool" where
  "nonneg_counts p =
     (0 \<le> ratingCount p \<and> (case unitsSold (analytics p) of None \<Rightarrow> True | Some u \<Rightarrow> 0 \<le> u))"

text \<open>A score that is a finite number.\<close>

definition is_Fin :: "jsnum \<Rightarrow> bool" where
  "is_Fin x = (case x of Fin a \<Rightarrow> True | _ \<Rightarrow> False)"





text \<open>A response in which no item has the status \<open>MEDIUM_STOCK\<close> and every item with a
  stock above 10 has the status \<open>HIGH_STOCK\<close>.\<close>

definition no_medium :: "SearchResponse \<Rightarrow> bool" where
  "no_medium res =
     list_all (\<lambda>x. r_stockStatus x \<noteq> MEDIUM_STOCK \<and> (10 < r_stock x \<longrightarrow> r_stockStatus x = HIGH_STOCK))
       (res_data res)"

definition cache_no_medium :: "SearchService \<Rightarrow> bool" where
  "cache_no_medium s = list_all (\<lambda>(k, e). no_medium (ce_data e)) (searchCache s)"

text \<open>The cache is a \<open>Map\<close>, so its keys are distinct; it holds at most \<open>maxCacheSize\<close>
  entries.\<close>

definition cache_inv :: "SearchService \<Rightarrow> bool" where
  "cache_inv s = (distinct (map fst (searchCache s)) \<and> length (searchCache s) \<le> maxCacheSize)"

text \<open>The query normalisation as the specification words it: lower-case and trim, then
  the regional-term table, then the misspelling table, each entry of a table in turn as a
  substitution bounded by word boundaries, ignoring case, over the whole string.  The
  string is cut into its words (the maximal runs of word characters) and the single
  characters between them, and every piece that is the entry's term, ignoring case, is
  replaced.  Nothing here goes through the scan of \<open>replace_word\<close> or the loop of
  \<open>apply_table\<close>.\<close>

function spec_pieces :: "string \<Rightarrow> string list" where
  "spec_pieces [] = []"
| "spec_pieces (c # s) =
     (if is_word_char c
      then (c # takeWhile is_word_char s) # spec_pieces (dropWhile is_word_char s)
      else [c] # spec_pieces s)"
  by pat_completeness auto
termination
  by (relation "measure length") (auto simp add: length_dropWhile_le less_Suc_eq_le)

definition spec_substitute :: "string \<Rightarrow> string \<Rightarrow> string \<Rightarrow> string" where
  "spec_substitute w r s =
     concat (map (\<lambda>piece. if toLowerCase piece = toLowerCase w then r else piece) (spec_pieces s))"

fun spec_table :: "(string \<times> string) list \<Rightarrow> string \<Rightarrow> string" where
  "spec_table [] s = s"
| "spec_table ((w, r) # table) s = spec_table table (spec_substitute w r s)"

definition spec_normalize :: "string \<Rightarrow> string" where
  "spec_normalize q = spec_table misspellingMap (spec_table hinglishMap (trim (toLowerCase q)))"

text \<open>A term that is a word: not empty, word characters only.\<close>

definition word_key :: "string \<Rightarrow> bool" where
  "word_key w = (w \<noteq> [] \<and> list_all is_word_char w)"

text \<open>Product data and query parameters with no property set, and the sample product of
  the repository's unit tests.\<close>

definition no_data :: ProductData where
  "no_data =
     \<lparr>d_productId = None, d_title = None, d_description = None, d_category = None,
      d_subcategory = None, d_brand = None, d_model = None, d_price = None, d_mrp = None,
      d_currency = None, d_rating = None, d_ratingCount = None, d_stock = None,
      d_isActive = None, d_imageUrls = None, d_metadata = None, d_analytics = None,
      d_searchableText = None, d_tags = None, d_createdAt = None, d_updatedAt = None\<rparr>"

definition no_params :: QueryParams where
  "no_params =
     \<lparr>p_query = None, p_limit = Undefined, p_offset = Undefined, p_sortBy = None,
      p_category = None, p_brand = None, p_minPrice = Undefined, p_maxPrice = Undefined,
      p_minRating = Undefined, p_inStock = Undefined, p_priceRange = None, p_ratingRange = None\<rparr>"

definition sampleProduct :: ProductData where
  "sampleProduct =
     no_data\<lparr>d_title := Some ''Test Product'', d_description := Some ''A test product'',
             d_brand := Some ''TestBrand'', d_category := Some ''TestCategory'',
             d_price := Some 1000, d_stock := Some 50\<rparr>"

definition sampleRepo :: Repo where
  "sampleRepo = snd (add 0 0 sampleProduct new_Repo)"

text \<open>The product that \<open>add\<close> stores for the sample data in an empty repository, the
  query that the constructor builds from no parameters, and a clock reading.\<close>

definition storedSample :: Product where
  "storedSample =
     \<lparr>productId = 1, title = ''Test Product'', description = Some ''A test product'',
      category = Some ''TestCategory'', subcategory = None, brand = Some ''TestBrand'',
      model = None, price = 1000, mrp = None, currency = ''INR'', rating = 0, ratingCount = 0,
      stock = 50, isActive = True, imageUrls = [], metadata = [], analytics = no_analytics,
      searchableText = ''test product a test product testbrand testcategory'', tags = [],
      createdAt = 0, updatedAt = 0\<rparr>"

definition inactiveRepo :: Repo where
  \<comment> \<open>the empty repository after adding the sample data with \<open>isActive: false\<close>\<close>
  "inactiveRepo = snd (add 0 0 (sampleProduct\<lparr>d_isActive := Some False\<rparr>) new_Repo)"

definition defaultQuery :: SearchQuery where
  "defaultQuery =
     \<lparr>q_query = [], q_limit = 20, q_offset = 0, q_sortBy = ''relevance'', q_category = None,
      q_brand = None, q_minPrice = None, q_maxPrice = None, q_minRating = None,
      q_inStock = False, q_priceRange = None, q_ratingRange = None\<rparr>"

text \<open>The response of a search without parameters over a repository that holds the sample
  product only, the cache key of that search, and a clock that stands at 0.\<close>

definition sampleResponse :: SearchResponse where
  "sampleResponse =
     \<lparr>res_data =
        [\<lparr>r_productId = 1, r_title = ''Test Product'', r_description = Some ''A test product'',
          r_price = 1000, r_mrp = None, r_currency = ''INR'', r_discount = 0, r_rating = 0,
          r_ratingCount = 0, r_stock = 50, r_stockStatus = HIGH_STOCK,
          r_brand = Some ''TestBrand'', r_category = Some ''TestCategory'', r_imageUrls = [],
          r_metadata = [], r_relevanceScore = 36 / 100, r_tags = []\<rparr>],
      totalResults = 1, res_query = [],
      res_filters = \<lparr>f_category = None, f_brand = None, f_minPrice = None, f_maxPrice = None,
                     f_minRating = None, f_inStock = False\<rparr>,
      pagination = \<lparr>pg_limit = 20, pg_offset = 0, hasNext = False, hasPrevious = False\<rparr>,
      res_sortBy = ''relevance'', executionTime = 0\<rparr>"

definition sampleKey :: CacheKey where
  "sampleKey =
     \<lparr>k_query = [], k_limit = 20, k_offset = 0, k_sortBy = ''relevance'', k_category = None,
      k_brand = None, k_minPrice = None, k_maxPrice = None, k_minRating = None,
      k_inStock = False, k_priceRange = None, k_ratingRange = None\<rparr>"

definition zeroClock :: Clock where
  "zeroClock = \<lparr>t_get = 0, t_start = 0, t_end = 0, t_put = 0\<rparr>"

text \<open>A service whose cache is full: 1000 entries, inserted in the order of their offsets.\<close>

definition cacheOfSize :: "nat \<Rightarrow> cache" where
  "cacheOfSize n =
     map (\<lambda>i. (sampleKey\<lparr>k_offset := int i\<rparr>, \<lparr>ce_data = sampleResponse, ce_timestamp = int i\<rparr>))
       [0 ..< n]"

definition fullCache :: cache where
  "fullCache = cacheOfSize 1000"

definition fullService :: SearchService where
  "fullService =
     \<lparr>productRepository = sampleRepo, searchCache = fullCache, hits = 0, misses = 1000,
      evictions = 0\<rparr>"







text \<open>Query parameters that the constructor rejects, and the service after the first
  search without parameters over the sample repository.\<close>

definition badSortParams :: QueryParams where
  "badSortParams = no_params\<lparr>p_sortBy := Some ''bogus''\<rparr>"

definition cachedService :: SearchService where
  "cachedService =
     \<lparr>productRepository = sampleRepo,
      searchCache = [(sampleKey, \<lparr>ce_data = sampleResponse, ce_timestamp = 0\<rparr>)],
      hits = 0, misses = 1, evictions = 0\<rparr>"

definition sampleEnv :: Env where
  "sampleEnv = \<lparr>now = 0, yearStart = 0, leapYear = False\<rparr>"

section \<open>Theorems\<close>

subsection \<open>Stock status thresholds\<close>


subsection \<open>Query normalisation\<close>

lemma is_space_lower_char: "is_space (lower_char c) = is_space c"
  by (auto simp add: is_space_def lower_char_def charCode_def)

lemma dropWhile_space_lower:
  "dropWhile is_space (map lower_char xs) = map lower_char (dropWhile is_space xs)"
  by (induction xs) (simp_all add: is_space_lower_char)

lemma trim_toLowerCase: "trim (toLowerCase s) = toLowerCase (trim s)"
  by (simp add: trim_def toLowerCase_def dropWhile_space_lower rev_map)

lemma is_word_char_lower: "is_word_char (lower_char c) = is_word_char c"
  by (auto simp add: is_word_char_def is_alnum_def is_alnum_lower_def lower_char_def charCode_def)

lemma lower_char_eq_word: "lower_char a = lower_char c \<Longrightarrow> is_word_char a = is_word_char c"
  using is_word_char_lower [of a] is_word_char_lower [of c] by simp

lemma startsWith_ci_iff:
  "startsWith_ci s w \<longleftrightarrow> length w \<le> length s \<and> toLowerCase (take (length w) s) = toLowerCase w"
  by (induction s w rule: startsWith_ci.induct) (auto simp add: toLowerCase_def)

lemma scan_inside_word:
  "is_word_opt prev \<Longrightarrow> list_all is_word_char u \<Longrightarrow>
     replace_scan w r 0 prev (u @ rest)
       = u @ replace_scan w r 0 (if u = [] then prev else Some (last u)) rest"
proof (induction u arbitrary: prev)
  case Nil
  then show ?case by simp
next
  case (Cons c u)
  have "\<not> match_at w prev (c # u @ rest)"
    using Cons.prems by (simp add: match_at_def word_boundary_def head_opt_def is_word_opt_def)
  moreover have "is_word_opt (Some c)"
    using Cons.prems by (simp add: is_word_opt_def)
  ultimately show ?case
    using Cons.IH [of "Some c"] Cons.prems by simp
qed

lemma scan_skip:
  "length u = n \<Longrightarrow>
     replace_scan w r n prev (u @ rest)
       = replace_scan w r 0 (if u = [] then prev else Some (last u)) rest"
proof (induction u arbitrary: prev n)
  case Nil
  then show ?case by simp
next
  case (Cons c u)
  then show ?case by (cases n) auto
qed

lemma no_match_at_nonword:
  assumes "\<not> is_word_char c" and "word_key w"
  shows "\<not> match_at w prev (c # s)"
proof -
  from assms(2) obtain d w' where w: "w = d # w'" and d: "is_word_char d"
    by (cases w) (auto simp add: word_key_def)
  show ?thesis
    using assms(1) d lower_char_eq_word [of c d] by (auto simp add: match_at_def w)
qed

lemma list_all_word_lower:
  "toLowerCase a = toLowerCase b \<Longrightarrow> list_all is_word_char a = list_all is_word_char b"
proof (induction a arbitrary: b)
  case Nil
  then show ?case by (simp add: toLowerCase_def)
next
  case (Cons x a)
  then obtain y b' where b: "b = y # b'" and xy: "lower_char x = lower_char y"
    and t: "toLowerCase a = toLowerCase b'"
    by (cases b) (auto simp add: toLowerCase_def)
  show ?case
    using Cons.IH [OF t] lower_char_eq_word [OF xy] by (simp add: b)
qed

lemma match_at_word_start:
  assumes "\<not> is_word_opt prev" and "u \<noteq> []" and "list_all is_word_char u"
    and "\<not> is_word_opt (head_opt rest)" and "word_key w"
  shows "match_at w prev (u @ rest) \<longleftrightarrow> toLowerCase u = toLowerCase w"
proof
  assume eq: "toLowerCase u = toLowerCase w"
  then have len: "length w = length u"
    by (metis length_map toLowerCase_def)
  have b1: "word_boundary prev (head_opt (u @ rest))"
    using assms(1,2,3) by (cases u) (simp_all add: word_boundary_def head_opt_def is_word_opt_def)
  have "is_word_char (last u)"
    using assms(2,3) by (simp add: list_all_iff)
  then have b2: "word_boundary (Some (last (take (length w) (u @ rest))))
                   (head_opt (drop (length w) (u @ rest)))"
    using assms(4) by (simp add: len word_boundary_def is_word_opt_def)
  show "match_at w prev (u @ rest)"
    using assms(5) eq b1 b2 by (simp add: match_at_def startsWith_ci_iff len word_key_def)
next
  assume m: "match_at w prev (u @ rest)"
  then have le: "length w \<le> length (u @ rest)"
    and eq: "toLowerCase (take (length w) (u @ rest)) = toLowerCase w"
    and b2: "word_boundary (Some (last (take (length w) (u @ rest))))
               (head_opt (drop (length w) (u @ rest)))"
    by (simp_all add: match_at_def startsWith_ci_iff)
  have wne: "w \<noteq> []" and ww: "list_all is_word_char w"
    using assms(5) by (simp_all add: word_key_def)
  from list_all_word_lower [OF eq] ww
  have tw: "list_all is_word_char (take (length w) (u @ rest))" by simp
  have not_longer: "\<not> length u < length w"
  proof
    assume l: "length u < length w"
    then have "rest \<noteq> []" using le by auto
    then obtain x rest' where rest: "rest = x # rest'" by (cases rest) auto
    have "x \<in> set (take (length w) (u @ rest))"
      using l by (simp add: rest) (cases "length w - length u"; simp)
    with tw have "is_word_char x" by (simp add: list_all_iff)
    with assms(4) show False by (simp add: rest head_opt_def is_word_opt_def)
  qed
  have not_shorter: "\<not> length w < length u"
  proof
    assume l: "length w < length u"
    have t: "take (length w) (u @ rest) = take (length w) u"
      using l by simp
    have "take (length w) u \<noteq> []" using wne l by auto
    then have "last (take (length w) u) \<in> set u"
      by (meson in_set_takeD last_in_set)
    then have w1: "is_word_char (last (take (length w) u))"
      using assms(3) by (simp add: list_all_iff)
    have d: "drop (length w) (u @ rest) = drop (length w) u @ rest"
      using l by simp
    have "drop (length w) u \<noteq> []" using l by simp
    then obtain y ys where dy: "drop (length w) u = y # ys" by (cases "drop (length w) u") auto
    then have "y \<in> set u" by (metis in_set_dropD list.set_intros(1))
    then have w2: "is_word_char y" using assms(3) by (simp add: list_all_iff)
    from b2 [unfolded t d dy] show False
      by (simp add: word_boundary_def head_opt_def is_word_opt_def w1 w2)
  qed
  from not_longer not_shorter have "length w = length u" by simp
  with eq show "toLowerCase u = toLowerCase w" by simp
qed


lemma scan_word_start:
  assumes "\<not> is_word_opt prev" and "u \<noteq> []" and "list_all is_word_char u"
    and "\<not> is_word_opt (head_opt rest)" and "word_key w"
  shows "replace_scan w r 0 prev (u @ rest)
           = (if toLowerCase u = toLowerCase w then r else u)
             @ replace_scan w r 0 (Some (last u)) rest"
proof -
  from assms(2) obtain c u' where u: "u = c # u'" by (cases u) auto
  have wc: "is_word_opt (Some c)" and wu': "list_all is_word_char u'"
    using assms(3) by (simp_all add: u is_word_opt_def)
  have l: "(if u' = [] then Some c else Some (last u')) = Some (last u)"
    by (simp add: u)
  show ?thesis
  proof (cases "toLowerCase u = toLowerCase w")
    case True
    then have len: "length u' = length w - 1"
      by (metis u length_map toLowerCase_def length_Cons diff_Suc_1)
    have "match_at w prev (c # u' @ rest)"
      using match_at_word_start [OF assms] True by (simp add: u)
    then have "replace_scan w r 0 prev (u @ rest)
                 = r @ replace_scan w r (length w - 1) (Some c) (u' @ rest)"
      by (simp add: u)
    also have "\<dots> = r @ replace_scan w r 0 (Some (last u)) rest"
      using scan_skip [OF len, of w r "Some c" rest] by (simp only: l)
    finally show ?thesis using True by simp
  next
    case False
    have "\<not> match_at w prev (c # u' @ rest)"
      using match_at_word_start [OF assms] False by (simp add: u)
    then have "replace_scan w r 0 prev (u @ rest) = c # replace_scan w r 0 (Some c) (u' @ rest)"
      by (simp add: u)
    also have "\<dots> = c # u' @ replace_scan w r 0 (Some (last u)) rest"
      using scan_inside_word [OF wc wu', of w r rest] by (simp only: l)
    finally show ?thesis using False by (simp add: u)
  qed
qed

lemma head_dropWhile_word: "\<not> is_word_opt (head_opt (dropWhile is_word_char s))"
  by (induction s) (simp_all add: head_opt_def is_word_opt_def)

lemma single_nonword_differs:
  assumes "\<not> is_word_char c" and "word_key w"
  shows "toLowerCase [c] \<noteq> toLowerCase w"
proof
  assume e: "toLowerCase [c] = toLowerCase w"
  from list_all_word_lower [OF e] assms show False
    by (simp add: word_key_def)
qed

lemma replace_scan_spec:
  assumes "word_key w"
  shows "\<not> (is_word_opt prev \<and> is_word_opt (head_opt s)) \<Longrightarrow>
           replace_scan w r 0 prev s = spec_substitute w r s"
proof (induction s arbitrary: prev rule: spec_pieces.induct)
  case 1
  then show ?case by (simp add: spec_substitute_def)
next
  case (2 c s)
  show ?case
  proof (cases "is_word_char c")
    case True
    let ?u = "c # takeWhile is_word_char s"
    let ?rest = "dropWhile is_word_char s"
    have split: "c # s = ?u @ ?rest" by simp
    have p: "\<not> is_word_opt prev"
      using "2.prems" True by (simp add: head_opt_def is_word_opt_def)
    have u: "list_all is_word_char ?u"
      using True by (simp add: list_all_iff) (meson set_takeWhileD)
    have "replace_scan w r 0 prev (?u @ ?rest)
            = (if toLowerCase ?u = toLowerCase w then r else ?u)
              @ replace_scan w r 0 (Some (last ?u)) ?rest"
      by (rule scan_word_start [OF p _ u head_dropWhile_word assms]) simp
    moreover have "replace_scan w r 0 (Some (last ?u)) ?rest = spec_substitute w r ?rest"
      by (rule "2.IH"(1) [OF True]) (simp add: head_dropWhile_word)
    ultimately show ?thesis
      unfolding split [symmetric] using True by (simp add: spec_substitute_def)
  next
    case False
    have "replace_scan w r 0 prev (c # s) = c # replace_scan w r 0 (Some c) s"
      using no_match_at_nonword [OF False assms] by simp
    moreover have "replace_scan w r 0 (Some c) s = spec_substitute w r s"
      by (rule "2.IH"(2) [OF False]) (simp add: is_word_opt_def False)
    ultimately show ?thesis
      using False single_nonword_differs [OF False assms] by (simp add: spec_substitute_def)
  qed
qed

lemma replace_word_spec: "word_key w \<Longrightarrow> replace_word w r s = spec_substitute w r s"
  unfolding replace_word_def by (rule replace_scan_spec) (simp_all add: is_word_opt_def)

lemma apply_table_spec:
  "list_all (\<lambda>(w, r). word_key w) table \<Longrightarrow> apply_table table s = spec_table table s"
  unfolding apply_table_def
  by (induction table arbitrary: s) (auto simp add: replace_word_spec)

lemma word_keys_hinglishMap: "list_all (\<lambda>(w, r). word_key w) hinglishMap"
  by code_simp

lemma word_keys_misspellingMap: "list_all (\<lambda>(w, r). word_key w) misspellingMap"
  by code_simp

lemma normalize_query_eq_spec: "normalize_query q = spec_normalize q"
  by (simp add: normalize_query_def spec_normalize_def trim_toLowerCase
      normalizeHinglishQuery_def correctCommonMisspellings_def
      apply_table_spec [OF word_keys_hinglishMap] apply_table_spec [OF word_keys_misspellingMap])

lemma new_SearchQuery_Inr:
  "new_SearchQuery ps = Inr sq \<Longrightarrow>
     sq = (assign_params ps)\<lparr>q_query := normalize_query (q_query (assign_params ps))\<rparr>"
  by (simp add: new_SearchQuery_def split: sum.splits)

lemma normalize_query_empty: "normalize_query [] = []"
  by code_simp

lemma normalize_query_sentence:
  "normalize_query ''  Sasta Samsang covr for cars, Rs-500 '' = ''cheap samsung cover for cars, rupees-500''"
  by code_simp

lemma normalize_query_families:
  "map normalize_query [''sasta'', ''sastey'', ''saste'', ''accha'', ''achha'', ''acche'']
     = [''cheap'', ''cheap'', ''cheap'', ''good'', ''good'', ''good'']"
  by code_simp

lemma validate_defaultQuery: "validate (defaultQuery\<lparr>q_query := s, q_limit := l, q_offset := off\<rparr>) = Inr ()"
  by (simp add: validate_def defaultQuery_def truthy_num_def isValidSortBy_def)

text \<open>
  Claim C8.  The normalisation that the \<open>SearchQuery\<close> constructor applies to the raw
  query string equals the specification's, for every string: lower-case and trim, then the
  regional-term table, then the misspelling table, each entry in table order as a
  replacement of the whole words of the string that are the entry's term.  In particular
  \<open>sasta\<close> becomes \<open>cheap\<close>, and the search terms of that query are the one token
  \<open>cheap\<close>; the terms of the \<open>cheap\<close> and \<open>good\<close> families go to \<open>cheap\<close> and \<open>good\<close>; and in
  a query of several words every word is treated, by both tables, while \<open>rs\<close> inside
  \<open>cars\<close> stays.
\<close>

theorem normalize_query_refines_spec:
  "normalize_query q = spec_normalize q \<and>
   (new_SearchQuery ps = Inr sq \<longrightarrow> q_query sq = spec_normalize (or_str (p_query ps) [])) \<and>
   normalize_query ''sasta'' = ''cheap'' \<and>
   getSearchTerms (defaultQuery\<lparr>q_query := normalize_query ''sasta''\<rparr>) = [''cheap''] \<and>
   map normalize_query [''sasta'', ''sastey'', ''saste'', ''accha'', ''achha'', ''acche'']
     = [''cheap'', ''cheap'', ''cheap'', ''good'', ''good'', ''good''] \<and>
   normalize_query ''  Sasta Samsang covr for cars, Rs-500 ''
     = ''cheap samsung cover for cars, rupees-500''"
proof -
  have ctor: "q_query sq = spec_normalize (or_str (p_query ps) [])" if "new_SearchQuery ps = Inr sq"
    using new_SearchQuery_Inr [OF that]
    by (simp add: normalize_query_eq_spec) (simp add: assign_params_def)
  have terms: "getSearchTerms (defaultQuery\<lparr>q_query := ''cheap''\<rparr>) = [''cheap'']"
    by (simp add: getSearchTerms_def split_ws_def is_space_def charCode_def is_alnum_def
        is_alnum_lower_def)
  have sasta: "normalize_query ''sasta'' = ''cheap''"
    using normalize_query_families by simp
  show ?thesis
    using ctor terms normalize_query_families normalize_query_sentence normalize_query_eq_spec [of q]
    by (simp only: sasta) simp
qed

theorem normalize_query_refines_spec_witness:
  "new_SearchQuery (no_params\<lparr>p_query := Some ''  Sasta Samsang covr for cars, Rs-500 ''\<rparr>)
     = Inr (defaultQuery\<lparr>q_query := ''cheap samsung cover for cars, rupees-500''\<rparr>) \<and>
   spec_normalize ''  Sasta Samsang covr for cars, Rs-500 ''
     = ''cheap samsung cover for cars, rupees-500''"
proof -
  have a: "assign_params (no_params\<lparr>p_query := Some ''  Sasta Samsang covr for cars, Rs-500 ''\<rparr>)
             = defaultQuery\<lparr>q_query := ''  Sasta Samsang covr for cars, Rs-500 '',
                             q_limit := 20, q_offset := 0\<rparr>"
    by (simp add: assign_params_def no_params_def defaultQuery_def or_str_def or_int_def
        parseInt_def truthy_def)
  have c: "new_SearchQuery (no_params\<lparr>p_query := Some ''  Sasta Samsang covr for cars, Rs-500 ''\<rparr>)
             = Inr (defaultQuery\<lparr>q_query := ''cheap samsung cover for cars, rupees-500''\<rparr>)"
    by (simp add: new_SearchQuery_def a validate_defaultQuery)
       (simp add: defaultQuery_def normalize_query_sentence)
  note t = normalize_query_refines_spec
         [where ps = "no_params\<lparr>p_query := Some ''  Sasta Samsang covr for cars, Rs-500 ''\<rparr>"
            and sq = "defaultQuery\<lparr>q_query := ''cheap samsung cover for cars, rupees-500''\<rparr>"
            and q = "[]"]
  from t c have "q_query (defaultQuery\<lparr>q_query := ''cheap samsung cover for cars, rupees-500''\<rparr>)
      = spec_normalize (or_str (p_query
          (no_params\<lparr>p_query := Some ''  Sasta Samsang covr for cars, Rs-500 ''\<rparr>)) [])"
    by blast
  then have "spec_normalize ''  Sasta Samsang covr for cars, Rs-500 ''
     = ''cheap samsung cover for cars, rupees-500''"
    by (simp add: no_params_def or_str_def)
  with c show ?thesis
    by simp
qed

subsection \<open>Limit and offset are clamped, not rejected\<close>

lemma validate_limit_offset:
  "validate (q\<lparr>q_limit := l, q_offset := off\<rparr>) = validate q"
  by (simp add: validate_def isValidSortBy_def)

lemma assign_params_limit_offset:
  "assign_params (ps\<lparr>p_limit := l, p_offset := off\<rparr>) =
     (assign_params ps)\<lparr>q_limit := min (or_int (parseInt l) 20) 100,
                         q_offset := max (or_int (parseInt off) 0) 0\<rparr>"
  by (simp add: assign_params_def)

lemma parseInt_500: "parseInt (Str ''500'') = Some 500"
  by code_simp

lemma parseInt_minus_3: "parseInt (Str ''-3'') = Some (- 3)"
  by code_simp

text \<open>
  Claim C5 says that a limit outside 1..100 or a negative offset makes the construction of
  the \<open>SearchQuery\<close> fail.  It does not: with limit 500 and offset -3 the constructor
  succeeds, with limit 100 and offset 0.
\<close>

theorem new_SearchQuery_limit_offset_counterexample:
  "new_SearchQuery (no_params\<lparr>p_limit := Num 500, p_offset := Num (- 3)\<rparr>)
     = Inr (defaultQuery\<lparr>q_limit := 100, q_offset := 0\<rparr>)"
proof -
  have a: "assign_params (no_params\<lparr>p_limit := Num 500, p_offset := Num (- 3)\<rparr>)
             = defaultQuery\<lparr>q_query := [], q_limit := 100, q_offset := 0\<rparr>"
    by (simp add: assign_params_def no_params_def defaultQuery_def or_str_def or_int_def
        parseInt_def truthy_def)
  show ?thesis
    by (simp add: new_SearchQuery_def a validate_defaultQuery)
       (simp add: defaultQuery_def normalize_query_empty)
qed

text \<open>
  Claim C5, amended.  Whether the construction fails does not depend on limit and offset:
  it fails exactly when \<open>validate\<close> finds a minimum price above the maximum price, a
  minimum rating outside 0..5 or an unknown \<open>sortBy\<close>.  When it succeeds, a limit that
  parses to \<open>n \<ge> 1\<close> has become \<open>min n 100\<close>, a limit that is missing, not a number or 0
  has become 20, and an offset has become \<open>max n 0\<close>, or 0 when it is missing or not a
  number.
\<close>

theorem new_SearchQuery_limit_offset:
  "isl (new_SearchQuery (ps\<lparr>p_limit := l, p_offset := off\<rparr>)) = isl (new_SearchQuery ps) \<and>
   isl (new_SearchQuery ps) =
     ((truthy_num (q_minPrice (assign_params ps)) \<and> truthy_num (q_maxPrice (assign_params ps))
         \<and> js_lt (the (q_maxPrice (assign_params ps))) (the (q_minPrice (assign_params ps))))
      \<or> (truthy_num (q_minRating (assign_params ps))
         \<and> (js_lt (the (q_minRating (assign_params ps))) (Fin 0)
            \<or> js_lt (Fin 5) (the (q_minRating (assign_params ps)))))
      \<or> \<not> isValidSortBy (assign_params ps)) \<and>
   (new_SearchQuery ps = Inr sq \<longrightarrow>
      (parseInt (p_limit ps) = None \<or> parseInt (p_limit ps) = Some 0 \<longrightarrow> q_limit sq = 20) \<and>
      (\<forall>n. parseInt (p_limit ps) = Some n \<and> 1 \<le> n \<longrightarrow> q_limit sq = min n 100) \<and>
      (parseInt (p_offset ps) = None \<longrightarrow> q_offset sq = 0) \<and>
      (\<forall>n. parseInt (p_offset ps) = Some n \<longrightarrow> q_offset sq = max n 0))"
proof (intro conjI impI)
  show "isl (new_SearchQuery (ps\<lparr>p_limit := l, p_offset := off\<rparr>)) = isl (new_SearchQuery ps)"
    by (simp add: new_SearchQuery_def assign_params_limit_offset validate_limit_offset
        split: sum.splits)
  show "isl (new_SearchQuery ps) =
     ((truthy_num (q_minPrice (assign_params ps)) \<and> truthy_num (q_maxPrice (assign_params ps))
         \<and> js_lt (the (q_maxPrice (assign_params ps))) (the (q_minPrice (assign_params ps))))
      \<or> (truthy_num (q_minRating (assign_params ps))
         \<and> (js_lt (the (q_minRating (assign_params ps))) (Fin 0)
            \<or> js_lt (Fin 5) (the (q_minRating (assign_params ps)))))
      \<or> \<not> isValidSortBy (assign_params ps))"
    by (simp add: new_SearchQuery_def validate_def split: sum.splits)
next
  assume "new_SearchQuery ps = Inr sq"
  then have sq: "sq = (assign_params ps)\<lparr>q_query := normalize_query (q_query (assign_params ps))\<rparr>"
    by (rule new_SearchQuery_Inr)
  show "parseInt (p_limit ps) = None \<or> parseInt (p_limit ps) = Some 0 \<Longrightarrow> q_limit sq = 20"
    by (auto simp add: sq assign_params_def or_int_def)
  show "\<forall>n. parseInt (p_limit ps) = Some n \<and> 1 \<le> n \<longrightarrow> q_limit sq = min n 100"
    by (auto simp add: sq assign_params_def or_int_def)
  show "parseInt (p_offset ps) = None \<Longrightarrow> q_offset sq = 0"
    by (auto simp add: sq assign_params_def or_int_def)
  show "\<forall>n. parseInt (p_offset ps) = Some n \<longrightarrow> q_offset sq = max n 0"
    by (auto simp add: sq assign_params_def or_int_def)
qed

theorem new_SearchQuery_limit_offset_witness:
  "new_SearchQuery (no_params\<lparr>p_limit := Str ''500'', p_offset := Str ''-3''\<rparr>)
     = Inr (defaultQuery\<lparr>q_limit := 100, q_offset := 0\<rparr>) \<and>
   parseInt (Str ''500'') = Some 500 \<and> parseInt (Str ''-3'') = Some (- 3) \<and>
   q_limit (defaultQuery\<lparr>q_limit := 100, q_offset := 0\<rparr>) = min 500 100 \<and>
   q_offset (defaultQuery\<lparr>q_limit := 100, q_offset := 0\<rparr>) = max (- 3) 0"
proof -
  have a: "assign_params (no_params\<lparr>p_limit := Str ''500'', p_offset := Str ''-3''\<rparr>)
             = defaultQuery\<lparr>q_query := [], q_limit := 100, q_offset := 0\<rparr>"
    by (simp add: assign_params_def no_params_def defaultQuery_def or_str_def or_int_def
        parseInt_500 parseInt_minus_3 truthy_def)
  have c: "new_SearchQuery (no_params\<lparr>p_limit := Str ''500'', p_offset := Str ''-3''\<rparr>)
     = Inr (defaultQuery\<lparr>q_limit := 100, q_offset := 0\<rparr>)"
    by (simp add: new_SearchQuery_def a validate_defaultQuery)
       (simp add: defaultQuery_def normalize_query_empty)
  from new_SearchQuery_limit_offset
         [where ps = "no_params\<lparr>p_limit := Str ''500'', p_offset := Str ''-3''\<rparr>"
            and sq = "defaultQuery\<lparr>q_limit := 100, q_offset := 0\<rparr>"
            and l = Undefined and off = Undefined] c
  show ?thesis
    by (simp add: no_params_def parseInt_500 parseInt_minus_3)
qed

subsection \<open>The sample repository and its search, evaluated\<close>

lemma searchableText_sample:
  "generateSearchableText (Some ''Test Product'') (Some ''A test product'') (Some ''TestBrand'') None
     (Some ''TestCategory'') None [] []
   = ''test product a test product testbrand testcategory''"
  by code_simp

lemma trim_sample: "trim ''Test Product'' = ''Test Product''"
  by code_simp

lemma toLowerCase_TestBrand: "toLowerCase ''TestBrand'' = ''testbrand''"
  by code_simp

lemma products_updateIndexes: "products (updateIndexes p r) = products r"
  by (simp add: updateIndexes_def addToStockStatusIndex_def addToRatingBucketIndex_def
      addToPriceRangeIndex_def addToBrandIndex_def addToCategoryIndex_def addToSearchIndex_def)

lemma products_add_sample:
  "products (snd (add 0 0 (sampleProduct\<lparr>d_isActive := b\<rparr>) new_Repo))
     = [(1, storedSample\<lparr>isActive := (case b of None \<Rightarrow> True | Some v \<Rightarrow> v)\<rparr>)]"
  by (simp add: add_def Let_def new_Repo_def new_Product_def sampleProduct_def no_data_def
      storedSample_def validate_product_def or_id_def or_str_def num_or_def
      searchableText_sample trim_sample products_updateIndexes)

lemma sampleRepo_products: "products sampleRepo = [(1, storedSample\<lparr>isActive := True\<rparr>)]"
  by (simp add: sampleRepo_def add_def Let_def new_Repo_def new_Product_def sampleProduct_def
      no_data_def storedSample_def validate_product_def or_id_def or_str_def num_or_def
      searchableText_sample trim_sample products_updateIndexes)

lemma inactiveRepo_products: "products inactiveRepo = [(1, storedSample\<lparr>isActive := False\<rparr>)]"
  using products_add_sample [of "Some False"] by (simp add: inactiveRepo_def)

lemma matchesFilters_default: "matchesFilters defaultQuery p = Inr True"
  by (simp add: matchesFilters_def defaultQuery_def field_differs_def)

lemma performSearch_single:
  assumes "products r = [(i, p)]"
  shows "performSearch t0 t1 r defaultQuery =
     Inr \<lparr>res_data = [project (Plain p (calculateRelevanceScore r p defaultQuery))],
          totalResults = 1, res_query = [],
          res_filters = \<lparr>f_category = None, f_brand = None, f_minPrice = None, f_maxPrice = None,
                         f_minRating = None, f_inStock = False\<rparr>,
          pagination = \<lparr>pg_limit = 20, pg_offset = 0, hasNext = False, hasPrevious = False\<rparr>,
          res_sortBy = ''relevance'', executionTime = t1 - t0\<rparr>"
proof -
  have c: "candidates r defaultQuery = [p]"
    by (simp add: candidates_def assms) (simp add: defaultQuery_def)
  show ?thesis
    by (simp add: performSearch_def c matchesFilters_default scored_def js_sort_def slice_def
        slice_index_def Let_def)
       (simp add: defaultQuery_def)
qed

lemma score_sample:
  assumes "products r = [(1, storedSample\<lparr>isActive := b\<rparr>)]"
  shows "calculateRelevanceScore r (storedSample\<lparr>isActive := b\<rparr>) defaultQuery = Some (181 / 500)"
proof -
  have pop: "calculatePopularityScore r (storedSample\<lparr>isActive := b\<rparr>) = Fin 0"
    by (simp add: calculatePopularityScore_def log_ratio_def getMaxUnitsSold_def getMaxReviews_def
        assms Math_log_def add_one_def)
       (simp add: storedSample_def no_analytics_def num_or_def)
  show ?thesis
    by (simp add: calculateRelevanceScore_def pop)
       (simp add: storedSample_def no_analytics_def num_or_def defaultQuery_def
        calculateTextRelevance_def calculateQualityScore_def calculateBusinessScore_def
        calculateDiscount_def applyBoostFactors_def boost_def brand_in_def popularBrands_def
        toLowerCase_TestBrand)
qed

lemma project_sample:
  "project (Plain (storedSample\<lparr>isActive := b\<rparr>) (Some (181 / 500))) =
     \<lparr>r_productId = 1, r_title = ''Test Product'', r_description = Some ''A test product'',
      r_price = 1000, r_mrp = None, r_currency = ''INR'', r_discount = 0, r_rating = 0,
      r_ratingCount = 0, r_stock = 50, r_stockStatus = HIGH_STOCK, r_brand = Some ''TestBrand'',
      r_category = Some ''TestCategory'', r_imageUrls = [], r_metadata = [],
      r_relevanceScore = 36 / 100, r_tags = []\<rparr>"
  by (simp add: project_def Let_def storedSample_def or_str_def score_or_0_def Math_round_def)

lemma performSearch_sample:
  assumes "products r = [(1, storedSample\<lparr>isActive := b\<rparr>)]"
  shows "performSearch 0 0 r defaultQuery = Inr sampleResponse"
  by (simp add: performSearch_single [OF assms] score_sample [OF assms] project_sample
      sampleResponse_def)

lemma new_SearchQuery_no_params: "new_SearchQuery no_params = Inr defaultQuery"
proof -
  have a: "assign_params no_params = defaultQuery\<lparr>q_query := [], q_limit := 20, q_offset := 0\<rparr>"
    by (simp add: assign_params_def no_params_def defaultQuery_def or_str_def or_int_def
        parseInt_def truthy_def)
  show ?thesis
    by (simp add: new_SearchQuery_def a validate_defaultQuery)
       (simp add: defaultQuery_def normalize_query_empty)
qed

lemma generateCacheKey_default: "generateCacheKey defaultQuery = sampleKey"
  by (simp add: generateCacheKey_def defaultQuery_def sampleKey_def json_num_def)

lemma search_sample:
  "search zeroClock no_params (new_SearchService sampleRepo) =
     (Inr sampleResponse,
      \<lparr>productRepository = sampleRepo,
       searchCache = [(sampleKey, \<lparr>ce_data = sampleResponse, ce_timestamp = 0\<rparr>)],
       hits = 0, misses = 1, evictions = 0\<rparr>)"
  by (simp add: search_def new_SearchQuery_no_params generateCacheKey_default getFromCache_def
      new_SearchService_def zeroClock_def performSearch_sample [OF sampleRepo_products]
      addToCache_def maxCacheSize_def Let_def)

subsection \<open>The relevance score of a product with a negative count\<close>

lemma clamp01_range: "clamp01 x = Some s \<Longrightarrow> 0 \<le> s \<and> s \<le> 1"
  by (cases x) auto

lemma getMaxUnitsSold_pos: "0 < getMaxUnitsSold r"
proof -
  have "0 \<le> foldl (\<lambda>mx p. if num_or (unitsSold (analytics p)) 0 > mx
                           then num_or (unitsSold (analytics p)) 0 else mx) m ps"
    if "0 \<le> m" for m :: real and ps
    using that by (induction ps arbitrary: m) auto
  from this [of 0 "map snd (products r)"] show ?thesis
    unfolding getMaxUnitsSold_def Let_def by (auto simp del: foldl_map)
qed

lemma getMaxReviews_pos: "0 < getMaxReviews r"
proof -
  have "0 \<le> foldl (\<lambda>mx p. if ratingCount p > mx then ratingCount p else mx) m ps"
    if "0 \<le> m" for m :: real and ps
    using that by (induction ps arbitrary: m) auto
  from this [of 0 "map snd (products r)"] show ?thesis
    unfolding getMaxReviews_def Let_def by (auto simp del: foldl_map)
qed

lemma getMaxReviews_single:
  "products r = [(i, p)] \<Longrightarrow> 0 < ratingCount p \<Longrightarrow> getMaxReviews r = ratingCount p"
  by (simp add: getMaxReviews_def)

lemma js_plus_NaN: "js_plus x NaN = NaN"
  by (cases x) simp_all

lemma boost_NaN: "boost c f NaN = NaN"
  by (simp add: boost_def)

lemma is_Fin_boost: "is_Fin x \<Longrightarrow> is_Fin (boost c f x)"
  by (cases x) (simp_all add: is_Fin_def boost_def)

lemma clamp01_is_Fin: "is_Fin x \<Longrightarrow> \<exists>s. clamp01 x = Some s \<and> 0 \<le> s \<and> s \<le> 1"
  by (cases x) (simp_all add: is_Fin_def)

lemma is_Fin_boosts: "is_Fin x \<Longrightarrow> is_Fin (applyBoostFactors x p)"
  unfolding applyBoostFactors_def by (intro is_Fin_boost)

lemma is_Fin_festive_boosts: "is_Fin x \<Longrightarrow> is_Fin (festive_applyBoostFactors env x p)"
  unfolding festive_applyBoostFactors_def Let_def by (intro is_Fin_boost)

text \<open>The logarithm of a count below \<open>-1\<close> is \<open>NaN\<close>, and \<open>NaN\<close> goes through the weighted
  sum, the boost factors and \<open>Math.max(0, Math.min(1, score))\<close>.\<close>

lemma log_ratio_below_minus_one: "x < - 1 \<Longrightarrow> 0 < m \<Longrightarrow> log_ratio x m = NaN"
  by (simp add: log_ratio_def add_one_def Math_log_def)

lemma popularity_NaN:
  assumes "ratingCount p < - 1"
  shows "calculatePopularityScore r p = NaN"
  by (simp add: calculatePopularityScore_def Let_def js_plus_NaN
      log_ratio_below_minus_one [OF assms getMaxReviews_pos])

lemma score_NaN:
  assumes "ratingCount p < - 1"
  shows "calculateRelevanceScore r p q = None"
  by (simp add: calculateRelevanceScore_def popularity_NaN [OF assms] applyBoostFactors_def
      js_plus_NaN boost_NaN)

text \<open>A largest rating count so small that \<open>maxReviews + 1\<close> is 1 in double precision
  makes the review score \<open>Math.log(1) / Math.log(1)\<close>, which is \<open>NaN\<close> as well.\<close>

lemma log_ratio_tiny: "log_ratio (1 / 10 ^ 17) (1 / 10 ^ 17) = NaN"
  by (simp add: log_ratio_def add_one_def Math_log_def)

lemma score_NaN_tiny:
  assumes "products r = [(i, p)]" and "ratingCount p = 1 / 10 ^ 17"
  shows "calculateRelevanceScore r p q = None"
proof -
  have m: "getMaxReviews r = 1 / 10 ^ 17"
    using getMaxReviews_single [OF assms(1)] assms(2) by simp
  have "calculatePopularityScore r p = NaN"
    by (simp only: calculatePopularityScore_def Let_def m assms(2) log_ratio_tiny js_times.simps
        js_plus_NaN)
  then show ?thesis
    by (simp add: calculateRelevanceScore_def applyBoostFactors_def js_plus_NaN boost_NaN)
qed

text \<open>The service with festive seasons scores a product with fewer than 5 ratings as a new
  product, without a logarithm.\<close>

lemma festive_new_in_range:
  assumes "isNewProduct env p"
  shows "\<exists>s. festive_calculateRelevanceScore env r p q = Some s \<and> 0 \<le> s \<and> s \<le> 1"
proof -
  have "is_Fin (if isFestiveProduct env p then Fin a else Fin b)" for a b
    by (simp add: is_Fin_def)
  then show ?thesis
    using assms unfolding festive_calculateRelevanceScore_def Let_def
    by (auto intro!: clamp01_is_Fin is_Fin_festive_boosts simp add: is_Fin_def)
qed

text \<open>Where the clamp does its work: counts that are not negative, in a repository whose
  largest counts are at least 1 (or absent, when the defaults 10000 and 1000 stand in).\<close>

lemma log_ratio_is_Fin: "0 \<le> x \<Longrightarrow> 1 \<le> m \<Longrightarrow> is_Fin (log_ratio x m)"
  by (simp add: log_ratio_def add_one_def Math_log_def is_Fin_def)

lemma nonneg_counts_units: "nonneg_counts p \<Longrightarrow> 0 \<le> num_or (unitsSold (analytics p)) 0"
  by (auto simp add: nonneg_counts_def num_or_def split: option.splits)

lemma is_Fin_times: "is_Fin x \<Longrightarrow> is_Fin (js_times x c)"
  by (cases x) (simp_all add: is_Fin_def)

lemma is_Fin_plus: "is_Fin x \<Longrightarrow> is_Fin y \<Longrightarrow> is_Fin (js_plus x y)"
  by (cases x; cases y) (simp_all add: is_Fin_def)

lemma relevance_score_bounded_nonneg_counts:
  assumes "nonneg_counts p" and "1 \<le> getMaxUnitsSold r" and "1 \<le> getMaxReviews r"
  shows "\<exists>s. calculateRelevanceScore r p q = Some s \<and> 0 \<le> s \<and> s \<le> 1"
proof -
  from assms(1) have c: "0 \<le> ratingCount p"
    by (simp add: nonneg_counts_def)
  have "is_Fin (calculatePopularityScore r p)"
    unfolding calculatePopularityScore_def Let_def
    by (intro is_Fin_plus is_Fin_times log_ratio_is_Fin nonneg_counts_units assms c)
  then have "is_Fin (js_plus
          (js_plus (Fin (calculateTextRelevance p q * (4 / 10) + calculateQualityScore p * (25 / 100)))
             (js_times (calculatePopularityScore r p) (2 / 10)))
          (Fin (calculateBusinessScore p * (15 / 100))))"
    by (intro is_Fin_plus is_Fin_times) (simp_all add: is_Fin_def)
  then show ?thesis
    unfolding calculateRelevanceScore_def by (intro clamp01_is_Fin is_Fin_boosts)
qed

lemma products_add_ratingCount:
  "products (snd (add 0 0 (sampleProduct\<lparr>d_ratingCount := Some c\<rparr>) new_Repo))
     = [(1, storedSample\<lparr>ratingCount := c\<rparr>)]"
  by (simp add: add_def Let_def new_Repo_def new_Product_def sampleProduct_def no_data_def
      storedSample_def validate_product_def or_id_def or_str_def num_or_def
      searchableText_sample trim_sample products_updateIndexes)

text \<open>
  Claim C1 says that the relevance score lies between 0 and 1 for every product and
  every query.  The plain \<open>SearchService\<close> does not keep that: the repository stores the
  sample product of the unit tests with \<open>ratingCount: -2\<close> (\<open>Product.validate\<close> checks
  title, price, rating and stock only), and for that product \<open>calculateRelevanceScore\<close>
  returns \<open>NaN\<close>, whatever the repository and the query are; \<open>Math.max\<close> and \<open>Math.min\<close>
  do not clamp \<open>NaN\<close>.  The same happens with \<open>ratingCount: 1e-17\<close>, which is not negative,
  when that is the largest rating count of the repository.  The service with festive
  seasons scores the product with \<open>ratingCount: -2\<close> as a new product and returns a number
  between 0 and 1.
\<close>

theorem relevance_score_NaN_for_negative_count:
  "products (snd (add 0 0 (sampleProduct\<lparr>d_ratingCount := Some (- 2)\<rparr>) new_Repo))
     = [(1, storedSample\<lparr>ratingCount := - 2\<rparr>)] \<and>
   calculateRelevanceScore r (storedSample\<lparr>ratingCount := - 2\<rparr>) q = None \<and>
   calculateRelevanceScore
       (snd (add 0 0 (sampleProduct\<lparr>d_ratingCount := Some (1 / 10 ^ 17)\<rparr>) new_Repo))
       (storedSample\<lparr>ratingCount := 1 / 10 ^ 17\<rparr>) q = None \<and>
   (\<exists>s. festive_calculateRelevanceScore env r (storedSample\<lparr>ratingCount := - 2\<rparr>) q = Some s
        \<and> 0 \<le> s \<and> s \<le> 1)"
proof -
  have a: "calculateRelevanceScore r (storedSample\<lparr>ratingCount := - 2\<rparr>) q = None"
    by (rule score_NaN) simp
  have b: "calculateRelevanceScore
       (snd (add 0 0 (sampleProduct\<lparr>d_ratingCount := Some (1 / 10 ^ 17)\<rparr>) new_Repo))
       (storedSample\<lparr>ratingCount := 1 / 10 ^ 17\<rparr>) q = None"
    by (rule score_NaN_tiny [OF products_add_ratingCount]) simp
  have "isNewProduct env (storedSample\<lparr>ratingCount := - 2\<rparr>)"
    by (simp add: isNewProduct_def)
  from festive_new_in_range [OF this] a b products_add_ratingCount [of "- 2"] show ?thesis
    by blast
qed

subsection \<open>What \<open>performSearch\<close> returns\<close>

lemma set_insert_by: "set (insert_by cmp x ys) = insert x (set ys)"
  by (induction ys) auto

lemma set_js_sort: "set (js_sort cmp xs) = set xs"
  by (induction xs) (simp_all add: js_sort_def set_insert_by)

lemma length_insert_by: "length (insert_by cmp x ys) = Suc (length ys)"
  by (induction ys) auto

lemma length_js_sort: "length (js_sort cmp xs) = length xs"
  by (induction xs) (simp_all add: js_sort_def length_insert_by)

lemma set_slice: "set (slice a b xs) \<subseteq> set xs"
  by (auto simp add: slice_def Let_def dest: in_set_takeD in_set_dropD)

lemma project_Plain_status:
  "r_stockStatus (project (Plain p s)) =
     (if stock p = 0 then OUT_OF_STOCK else if stock p \<le> 10 then LOW_STOCK else HIGH_STOCK)"
  by (simp add: project_def Let_def)

lemma project_Plain_stock: "r_stock (project (Plain p s)) = stock p"
  by (simp add: project_def Let_def)

lemma scored_plain: "c \<in> set (scored r q ms) \<Longrightarrow> \<exists>p s. c = Plain p s"
  by (auto simp add: scored_def)

lemma performSearch_data:
  assumes "performSearch t0 t1 r q = Inr res"
  shows "\<exists>ms. filter_matches q (candidates r q) = Inr ms \<and>
           res_data res = map project (slice (q_offset q) (q_offset q + q_limit q)
                                         (js_sort (getSortFunction q) (scored r q ms))) \<and>
           totalResults res = length ms"
  using assms
  by (auto simp add: performSearch_def Let_def length_js_sort scored_def split: sum.splits)

lemma performSearch_no_medium:
  assumes "performSearch t0 t1 r q = Inr res"
  shows "no_medium res"
proof -
  obtain ms where d: "res_data res = map project (slice (q_offset q) (q_offset q + q_limit q)
                                         (js_sort (getSortFunction q) (scored r q ms)))"
    using performSearch_data [OF assms] by blast
  have "r_stockStatus x \<noteq> MEDIUM_STOCK \<and> (10 < r_stock x \<longrightarrow> r_stockStatus x = HIGH_STOCK)"
    if "x \<in> set (res_data res)" for x
  proof -
    from that d obtain c where c: "c \<in> set (scored r q ms)" and x: "x = project c"
      using set_slice [of "q_offset q" "q_offset q + q_limit q"
                          "js_sort (getSortFunction q) (scored r q ms)"]
      by (auto simp add: set_js_sort)
    from scored_plain [OF c] obtain p s where "c = Plain p s" by blast
    then show ?thesis
      by (simp add: x project_Plain_status project_Plain_stock)
  qed
  then show ?thesis
    by (simp add: no_medium_def list_all_iff)
qed

lemma getFromCache_Some:
  "getFromCache k t s = (Some d, s') \<Longrightarrow>
     s' = s \<and> (\<exists>e. map_of (searchCache s) k = Some e \<and> ce_data e = d \<and> t - ce_timestamp e < 300000)"
  by (auto simp add: getFromCache_def split: option.splits if_splits)

lemma getFromCache_None:
  assumes "getFromCache k t s = (None, s')"
  shows "s' = s\<lparr>searchCache := AList.delete k (searchCache s)\<rparr> \<and> map_of (searchCache s') k = None"
proof (cases "map_of (searchCache s) k")
  case None
  then have "k \<notin> fst ` set (searchCache s)" by (simp add: map_of_eq_None_iff)
  then have "AList.delete k (searchCache s) = searchCache s" by (rule AList.delete_id)
  with assms None show ?thesis by (simp add: getFromCache_def)
next
  case (Some e)
  with assms show ?thesis
    by (auto simp add: getFromCache_def AList.delete_conv split: if_splits)
qed

lemma list_all_delete: "list_all P c \<Longrightarrow> list_all P (AList.delete k c)"
  by (simp add: AList.delete_eq list_all_iff)

lemma list_all_update:
  "list_all (\<lambda>(k, e). P e) c \<Longrightarrow> P v \<Longrightarrow> list_all (\<lambda>(k, e). P e) (AList.update k v c)"
  by (induction c) auto

lemma addToCache_no_medium:
  assumes "cache_no_medium s" "no_medium d"
  shows "cache_no_medium (addToCache k d t s)"
  using assms
  by (auto simp add: addToCache_def cache_no_medium_def Let_def
      intro!: list_all_update list_all_delete split: list.splits)

text \<open>
  Claim C10.  Every candidate that \<open>performSearch\<close> has scored is a spread copy without the
  \<open>toSearchResult\<close> method, so every returned item is built by the projection written out
  in \<open>performSearch\<close>: no item of a response of \<open>performSearch\<close> has the stock status
  \<open>MEDIUM_STOCK\<close>, and an item whose stock is above 10 has \<open>HIGH_STOCK\<close>.  The same holds
  for every response of \<open>search\<close>, whose cache holds responses of \<open>performSearch\<close> only.
\<close>

theorem search_never_medium_stock:
  "(\<forall>c \<in> set (js_sort (getSortFunction q) (scored r q ms)). \<not> has_toSearchResult c) \<and>
   (performSearch t0 t1 r q = Inr res \<longrightarrow> no_medium res) \<and>
   (cache_no_medium s \<and> search clk ps s = (Inr res', s') \<longrightarrow> no_medium res' \<and> cache_no_medium s')"
proof (intro conjI impI ballI)
  fix c assume "c \<in> set (js_sort (getSortFunction q) (scored r q ms))"
  then have "c \<in> set (scored r q ms)" by (simp add: set_js_sort)
  from scored_plain [OF this] show "\<not> has_toSearchResult c" by auto
next
  assume "performSearch t0 t1 r q = Inr res"
  then show "no_medium res" by (rule performSearch_no_medium)
next
  assume a: "cache_no_medium s \<and> search clk ps s = (Inr res', s')"
  then obtain sq where sq: "new_SearchQuery ps = Inr sq"
    by (cases "new_SearchQuery ps") (auto simp add: search_def)
  obtain cached s1 where g: "getFromCache (generateCacheKey sq) (t_get clk) s = (cached, s1)"
    by (cases "getFromCache (generateCacheKey sq) (t_get clk) s") auto
  have s1: "cache_no_medium s1"
    using a g by (cases cached) (auto dest!: getFromCache_Some getFromCache_None
        simp add: cache_no_medium_def list_all_delete)
  show "no_medium res'"
  proof (cases cached)
    case (Some d)
    with g have "\<exists>e. map_of (searchCache s) (generateCacheKey sq) = Some e \<and> ce_data e = d"
      by (auto dest!: getFromCache_Some)
    then obtain e where e: "(generateCacheKey sq, e) \<in> set (searchCache s)" "ce_data e = d"
      by (auto dest: map_of_SomeD)
    with a have "no_medium d" by (auto simp add: cache_no_medium_def list_all_iff)
    moreover from a sq g Some have "res' = d" by (simp add: search_def)
    ultimately show ?thesis by simp
  next
    case None
    with a sq g show ?thesis
      by (auto simp add: search_def Let_def split: sum.splits dest: performSearch_no_medium)
  qed
  show "cache_no_medium s'"
  proof (cases cached)
    case (Some d)
    with a sq g have "s' = s1\<lparr>hits := hits s1 + 1\<rparr>" by (simp add: search_def)
    with s1 show ?thesis by (simp add: cache_no_medium_def)
  next
    case None
    with a sq g s1 show ?thesis
      by (auto simp add: search_def Let_def split: sum.splits
          intro!: addToCache_no_medium dest: performSearch_no_medium)
         (simp add: cache_no_medium_def)
  qed
qed

theorem search_never_medium_stock_witness:
  "getStockStatus storedSample = MEDIUM_STOCK \<and>
   js_sort (getSortFunction defaultQuery) (scored sampleRepo defaultQuery [storedSample])
     = [Plain storedSample (calculateRelevanceScore sampleRepo storedSample defaultQuery)] \<and>
   \<not> has_toSearchResult (Plain storedSample (calculateRelevanceScore sampleRepo storedSample defaultQuery)) \<and>
   performSearch 0 0 sampleRepo defaultQuery = Inr sampleResponse \<and>
   cache_no_medium (new_SearchService sampleRepo) \<and>
   search zeroClock no_params (new_SearchService sampleRepo) =
     (Inr sampleResponse,
      \<lparr>productRepository = sampleRepo,
       searchCache = [(sampleKey, \<lparr>ce_data = sampleResponse, ce_timestamp = 0\<rparr>)],
       hits = 0, misses = 1, evictions = 0\<rparr>) \<and>
   no_medium sampleResponse \<and>
   map r_stockStatus (res_data sampleResponse) = [HIGH_STOCK]"
proof -
  have g: "getStockStatus storedSample = MEDIUM_STOCK"
    by (simp add: getStockStatus_def storedSample_def)
  have j: "js_sort (getSortFunction defaultQuery) (scored sampleRepo defaultQuery [storedSample])
     = [Plain storedSample (calculateRelevanceScore sampleRepo storedSample defaultQuery)]"
    by (simp add: js_sort_def scored_def)
  have p: "performSearch 0 0 sampleRepo defaultQuery = Inr sampleResponse"
    by (rule performSearch_sample [OF sampleRepo_products])
  have c: "cache_no_medium (new_SearchService sampleRepo)"
    by (simp add: cache_no_medium_def new_SearchService_def)
  note t = search_never_medium_stock
         [where ?t0.0 = 0 and ?t1.0 = 0 and r = sampleRepo and q = defaultQuery
            and res = sampleResponse and s = "new_SearchService sampleRepo" and clk = zeroClock
            and ps = no_params and res' = sampleResponse and ms = "[storedSample]"]
  from t p c search_sample have n: "no_medium sampleResponse"
    by blast
  from t j have h: "\<not> has_toSearchResult
                       (Plain storedSample (calculateRelevanceScore sampleRepo storedSample defaultQuery))"
    by simp
  from g j h p c search_sample n show ?thesis
    by (simp add: sampleResponse_def)
qed

subsection \<open>A search without a text query scores every stored product\<close>

text \<open>
  Claim C6 says that a search with an empty query string returns active products only.
  It does not: in the repository that holds the sample product with \<open>isActive = false\<close>,
  the search without parameters returns that product.
\<close>

theorem inactive_product_returned_counterexample:
  "map_of (products inactiveRepo) 1 = Some (storedSample\<lparr>isActive := False\<rparr>) \<and>
   performSearch 0 0 inactiveRepo defaultQuery = Inr sampleResponse \<and>
   map r_productId (res_data sampleResponse) = [1]"
  by (simp add: performSearch_sample [OF inactiveRepo_products] inactiveRepo_products)
     (simp add: sampleResponse_def)

lemma filter_matches_eq:
  "filter_matches q ps = Inr ms \<Longrightarrow> ms = filter (\<lambda>p. matchesFilters q p = Inr True) ps"
  by (induction ps arbitrary: ms) (auto split: sum.splits if_splits)

lemma matchesFilters_isActive: "matchesFilters q (p\<lparr>isActive := b\<rparr>) = matchesFilters q p"
  by (simp add: matchesFilters_def split: sum.splits bool.splits)

text \<open>
  Claim C6, amended.  For every search whose query string is empty, the candidates are
  all stored products, whatever their \<open>isActive\<close> flag: the products scored, counted in
  \<open>totalResults\<close> and returned page by page are the stored products that pass
  \<open>matchesFilters\<close>, and \<open>matchesFilters\<close> does not read \<open>isActive\<close>.
\<close>

theorem no_query_candidates_all_stored:
  "(q_query q = [] \<and> performSearch t0 t1 r q = Inr res \<longrightarrow>
      totalResults res = length (filter (\<lambda>p. matchesFilters q p = Inr True) (map snd (products r))) \<and>
      res_data res =
        map project
          (slice (q_offset q) (q_offset q + q_limit q)
             (js_sort (getSortFunction q)
                (scored r q (filter (\<lambda>p. matchesFilters q p = Inr True) (map snd (products r))))))) \<and>
   matchesFilters q (p\<lparr>isActive := b\<rparr>) = matchesFilters q p"
proof (intro conjI impI)
  assume a: "q_query q = [] \<and> performSearch t0 t1 r q = Inr res"
  then obtain ms where ms: "filter_matches q (candidates r q) = Inr ms"
    and d: "res_data res = map project (slice (q_offset q) (q_offset q + q_limit q)
                                         (js_sort (getSortFunction q) (scored r q ms)))"
    and t: "totalResults res = length ms"
    using performSearch_data [of t0 t1 r q res] by blast
  from a have "candidates r q = map snd (products r)" by (simp add: candidates_def)
  with ms have e: "ms = filter (\<lambda>p. matchesFilters q p = Inr True) (map snd (products r))"
    by (simp add: filter_matches_eq)
  show "totalResults res = length (filter (\<lambda>p. matchesFilters q p = Inr True) (map snd (products r)))"
    using t e by simp
  show "res_data res =
        map project
          (slice (q_offset q) (q_offset q + q_limit q)
             (js_sort (getSortFunction q)
                (scored r q (filter (\<lambda>p. matchesFilters q p = Inr True) (map snd (products r))))))"
    using d e by simp
next
  show "matchesFilters q (p\<lparr>isActive := b\<rparr>) = matchesFilters q p"
    by (rule matchesFilters_isActive)
qed

theorem no_query_candidates_all_stored_witness:
  "q_query defaultQuery = [] \<and>
   performSearch 0 0 inactiveRepo defaultQuery = Inr sampleResponse \<and>
   length (filter (\<lambda>p. matchesFilters defaultQuery p = Inr True) (map snd (products inactiveRepo))) = 1"
proof -
  have q: "q_query defaultQuery = []" by (simp add: defaultQuery_def)
  have s: "performSearch 0 0 inactiveRepo defaultQuery = Inr sampleResponse"
    by (rule performSearch_sample [OF inactiveRepo_products])
  from no_query_candidates_all_stored
         [where q = defaultQuery and ?t0.0 = 0 and ?t1.0 = 0 and r = inactiveRepo
            and res = sampleResponse and p = storedSample and b = False] q s
  have "totalResults sampleResponse
          = length (filter (\<lambda>p. matchesFilters defaultQuery p = Inr True) (map snd (products inactiveRepo)))"
    by blast
  then have "length (filter (\<lambda>p. matchesFilters defaultQuery p = Inr True)
                       (map snd (products inactiveRepo))) = 1"
    by (simp add: sampleResponse_def)
  with q s show ?thesis by simp
qed

subsection \<open>Index entries of a product that is added and then removed\<close>

lemmas add_defs = addToStockStatusIndex_def addToRatingBucketIndex_def
  addToPriceRangeIndex_def addToBrandIndex_def addToCategoryIndex_def addToSearchIndex_def

lemmas remove_defs = removeFromStockStatusIndex_def removeFromRatingBucketIndex_def
  removeFromPriceRangeIndex_def removeFromBrandIndex_def removeFromCategoryIndex_def
  removeFromSearchIndex_def


















lemma add_fresh:
  assumes "d_productId d = None"
    and "new_Product t genId (d\<lparr>d_productId := Some (nextId r)\<rparr>) = Inr p"
  shows "add t genId d r =
           (Inr (productId p),
            updateIndexes p (r\<lparr>nextId := nextId r + 1,
                               products := AList.update (productId p) p (products r)\<rparr>))"
  using assms by (simp add: add_def Let_def)

lemma terms_sample:
  "extractSearchTerms ''test product a test product testbrand testcategory''
     = [''test'', ''product'', ''test'', ''product'', ''testbrand'', ''testcategory'']"
  by code_simp

lemma toLowerCase_TestCategory: "toLowerCase ''TestCategory'' = ''testcategory''"
  by code_simp

lemma updateIndexes_sample:
  "updateIndexes (storedSample\<lparr>title := tt, updatedAt := u\<rparr>)
     \<lparr>products = ps, nextId = n, searchIndex = [], categoryIndex = [], brandIndex = [],
      priceRangeIndex = [], ratingBucketIndex = [], stockStatusIndex = []\<rparr> =
     \<lparr>products = ps, nextId = n,
      searchIndex = [(''test'', [1]), (''product'', [1]), (''testbrand'', [1]), (''testcategory'', [1])],
      categoryIndex = [(''testcategory'', [1])], brandIndex = [(''testbrand'', [1])],
      priceRangeIndex = [(''1000-5000'', [1])], ratingBucketIndex = [(''below-2.0'', [1])],
      stockStatusIndex = [(MEDIUM_STOCK, [1])]\<rparr>"
  by (simp add: updateIndexes_def add_defs)
     (simp add: storedSample_def terms_sample index_add_def set_add_def present_def
      toLowerCase_TestBrand toLowerCase_TestCategory getPriceRange_def getRatingBucket_def
      getStockStatus_def)

lemma removeFromIndexes_sample:
  "removeFromIndexes storedSample
     \<lparr>products = ps, nextId = n,
      searchIndex = [(''test'', [1]), (''product'', [1]), (''testbrand'', [1]), (''testcategory'', [1])],
      categoryIndex = [(''testcategory'', [1])], brandIndex = [(''testbrand'', [1])],
      priceRangeIndex = [(''1000-5000'', [1])], ratingBucketIndex = [(''below-2.0'', [1])],
      stockStatusIndex = [(MEDIUM_STOCK, [1])]\<rparr>
   = \<lparr>products = ps, nextId = n, searchIndex = [], categoryIndex = [], brandIndex = [],
      priceRangeIndex = [], ratingBucketIndex = [], stockStatusIndex = []\<rparr>"
  by (simp add: removeFromIndexes_def remove_defs)
     (simp add: storedSample_def terms_sample index_remove_def present_def AList.delete_eq
      toLowerCase_TestBrand toLowerCase_TestCategory getPriceRange_def getRatingBucket_def
      getStockStatus_def)

lemma storedSample_retitle:
  "storedSample\<lparr>title := ''Test Product'', updatedAt := 0\<rparr> = storedSample"
  by (simp add: storedSample_def)

lemma new_Product_sample:
  "new_Product 0 0 (sampleProduct\<lparr>d_productId := Some (nextId new_Repo)\<rparr>) = Inr storedSample"
  by (simp add: new_Product_def sampleProduct_def no_data_def new_Repo_def storedSample_def
      validate_product_def or_id_def or_str_def num_or_def searchableText_sample trim_sample)

lemma sampleProduct_no_id: "d_productId sampleProduct = None"
  by (simp add: sampleProduct_def no_data_def)

lemma add_sample: "add 0 0 sampleProduct new_Repo = (Inr 1, sampleRepo)"
  by (simp add: sampleRepo_def add_fresh [OF sampleProduct_no_id new_Product_sample])
     (simp add: storedSample_def)

lemma sampleRepo_eq:
  "sampleRepo =
     \<lparr>products = [(1, storedSample)], nextId = 2,
      searchIndex = [(''test'', [1]), (''product'', [1]), (''testbrand'', [1]), (''testcategory'', [1])],
      categoryIndex = [(''testcategory'', [1])], brandIndex = [(''testbrand'', [1])],
      priceRangeIndex = [(''1000-5000'', [1])], ratingBucketIndex = [(''below-2.0'', [1])],
      stockStatusIndex = [(MEDIUM_STOCK, [1])]\<rparr>"
proof -
  have r: "new_Repo\<lparr>nextId := nextId new_Repo + 1,
                    products := AList.update (productId storedSample) storedSample (products new_Repo)\<rparr>
           = \<lparr>products = [(1, storedSample)], nextId = 2, searchIndex = [],
              categoryIndex = [], brandIndex = [], priceRangeIndex = [], ratingBucketIndex = [],
              stockStatusIndex = []\<rparr>"
    by (simp add: new_Repo_def storedSample_def)
  have "sampleRepo = updateIndexes storedSample
          (new_Repo\<lparr>nextId := nextId new_Repo + 1,
                    products := AList.update (productId storedSample) storedSample (products new_Repo)\<rparr>)"
    unfolding sampleRepo_def add_fresh [OF sampleProduct_no_id new_Product_sample] by simp
  also have "\<dots> = updateIndexes storedSample
                     \<lparr>products = [(1, storedSample)], nextId = 2, searchIndex = [],
                      categoryIndex = [], brandIndex = [], priceRangeIndex = [],
                      ratingBucketIndex = [], stockStatusIndex = []\<rparr>"
    unfolding r ..
  finally show ?thesis
    using updateIndexes_sample [where tt = "''Test Product''" and u = 0]
    by (simp add: storedSample_retitle)
qed
























subsection \<open>An update keeps the old searchable text\<close>

lemma trim_Gaming: "trim ''Gaming Laptop'' = ''Gaming Laptop''"
  by code_simp

lemma searchableText_Gaming:
  "generateSearchableText (Some ''Gaming Laptop'') (Some ''A test product'') (Some ''TestBrand'') None
     (Some ''TestCategory'') None [] []
   = ''gaming laptop a test product testbrand testcategory''"
  by code_simp

lemma update_found:
  assumes "map_of (products r) pid = Some existing"
    and "new_Product t genId
           ((spread (toJSON existing) upd)\<lparr>d_productId := Some pid, d_updatedAt := Some t\<rparr>) = Inr p"
  shows "update t genId pid upd r =
           (Inr p, updateIndexes p ((removeFromIndexes existing r)
                      \<lparr>products := AList.update pid p (products (removeFromIndexes existing r))\<rparr>))"
  using assms by (simp add: update_def Let_def)

lemma new_Product_retitled:
  "new_Product 5 0 ((spread (toJSON storedSample) (no_data\<lparr>d_title := Some ''Gaming Laptop''\<rparr>))
                      \<lparr>d_productId := Some 1, d_updatedAt := Some 5\<rparr>)
     = Inr (storedSample\<lparr>title := ''Gaming Laptop'', updatedAt := 5\<rparr>)"
  by (simp add: storedSample_def toJSON_def spread_def orElse_def no_data_def new_Product_def
      validate_product_def or_id_def or_str_def num_or_def trim_Gaming)

lemma update_keeps_searchableText:
  assumes "update t genId pid upd r = (Inr p, r')" and "map_of (products r) pid = Some existing"
    and "d_searchableText upd = None" and "searchableText existing \<noteq> []"
  shows "searchableText p = searchableText existing"
  using assms
  by (auto simp add: update_def Let_def new_Product_def validate_product_def spread_def toJSON_def
      orElse_def or_str_def split: sum.splits if_splits)

text \<open>
  Claim C3 says that after \<open>update(id, partial)\<close> the stored product's searchable text is
  recomputed from the merged fields.  The code does not do that: \<open>update\<close> hands the old
  product's \<open>toJSON()\<close>, searchable text included, to the constructor, which keeps a
  searchable text that is given.  Updating the title of the sample product to
  \<open>Gaming Laptop\<close> stores a product with the new title and the old searchable text, where
  the merged fields give \<open>gaming laptop a test product testbrand testcategory\<close>, and the
  token index is the one from before the update.
\<close>

theorem update_leaves_searchableText_stale:
  "update 5 0 1 (no_data\<lparr>d_title := Some ''Gaming Laptop''\<rparr>) sampleRepo =
     (Inr (storedSample\<lparr>title := ''Gaming Laptop'', updatedAt := 5\<rparr>),
      sampleRepo\<lparr>products := [(1, storedSample\<lparr>title := ''Gaming Laptop'', updatedAt := 5\<rparr>)]\<rparr>) \<and>
   searchableText (storedSample\<lparr>title := ''Gaming Laptop'', updatedAt := 5\<rparr>)
     = ''test product a test product testbrand testcategory'' \<and>
   generateSearchableText (Some ''Gaming Laptop'') (Some ''A test product'') (Some ''TestBrand'') None
       (Some ''TestCategory'') None [] []
     = ''gaming laptop a test product testbrand testcategory'' \<and>
   map fst (searchIndex sampleRepo) = [''test'', ''product'', ''testbrand'', ''testcategory'']"
proof -
  have m: "map_of (products sampleRepo) 1 = Some storedSample"
    by (simp add: sampleRepo_eq)
  have u: "update 5 0 1 (no_data\<lparr>d_title := Some ''Gaming Laptop''\<rparr>) sampleRepo =
     (Inr (storedSample\<lparr>title := ''Gaming Laptop'', updatedAt := 5\<rparr>),
      sampleRepo\<lparr>products := [(1, storedSample\<lparr>title := ''Gaming Laptop'', updatedAt := 5\<rparr>)]\<rparr>)"
    unfolding update_found [OF m new_Product_retitled]
    by (simp add: sampleRepo_eq removeFromIndexes_sample updateIndexes_sample del: One_nat_def)
  show ?thesis
    using u searchableText_Gaming by (simp add: sampleRepo_eq) (simp add: storedSample_def)
qed

subsection \<open>The cache holds at most 1000 entries and evicts the first-inserted key\<close>

lemma delete_head:
  assumes "distinct (map fst c)" and "c = (k0, v0) # c'"
  shows "AList.delete k0 c = c'"
proof -
  from assms have "k0 \<notin> fst ` set c'" by auto
  then have "AList.delete k0 c' = c'" by (rule AList.delete_id)
  with assms(2) show ?thesis by (simp add: AList.delete_eq)
qed

lemma length_update_le: "length (AList.update k v c) \<le> Suc (length c)"
  by (induction c) auto

lemma update_fresh: "k \<notin> fst ` set c \<Longrightarrow> AList.update k v c = c @ [(k, v)]"
  by (induction c) auto

lemma length_delete_le: "length (AList.delete k c) \<le> length c"
  by (simp add: AList.delete_eq)

lemma addToCache_full:
  assumes "distinct (map fst (searchCache s))" and "length (searchCache s) = maxCacheSize"
  shows "addToCache k d t s =
           s\<lparr>searchCache := AList.update k \<lparr>ce_data = d, ce_timestamp = t\<rparr> (tl (searchCache s)),
             evictions := evictions s + 1\<rparr>"
proof (cases "searchCache s")
  case Nil
  with assms(2) show ?thesis by (simp add: maxCacheSize_def)
next
  case (Cons a c')
  obtain k0 v0 where a: "a = (k0, v0)" by (cases a)
  from delete_head [OF assms(1)] Cons a have "AList.delete k0 (searchCache s) = c'" by simp
  with Cons a assms(2) show ?thesis
    by (simp add: addToCache_def Let_def)
qed

lemma addToCache_not_full:
  assumes "length (searchCache s) < maxCacheSize"
  shows "addToCache k d t s =
           s\<lparr>searchCache := AList.update k \<lparr>ce_data = d, ce_timestamp = t\<rparr> (searchCache s)\<rparr>"
  using assms by (simp add: addToCache_def Let_def)

lemma cache_inv_addToCache:
  assumes "cache_inv s"
  shows "cache_inv (addToCache k d t s)"
proof (cases "length (searchCache s) = maxCacheSize")
  case True
  with assms have "length (tl (searchCache s)) < maxCacheSize"
    by (simp add: maxCacheSize_def)
  moreover from assms have "distinct (map fst (tl (searchCache s)))"
    by (simp add: cache_inv_def distinct_tl map_tl)
  ultimately show ?thesis
    using assms True length_update_le [of k "\<lparr>ce_data = d, ce_timestamp = t\<rparr>" "tl (searchCache s)"]
    by (simp add: cache_inv_def addToCache_full distinct_update)
next
  case False
  with assms have l: "length (searchCache s) < maxCacheSize" by (simp add: cache_inv_def)
  with assms show ?thesis
    using length_update_le [of k "\<lparr>ce_data = d, ce_timestamp = t\<rparr>" "searchCache s"]
    by (simp add: cache_inv_def addToCache_not_full distinct_update)
qed

lemma cache_inv_getFromCache:
  assumes "cache_inv s" and "getFromCache k t s = (x, s')"
  shows "cache_inv s'"
  using assms length_delete_le [of k "searchCache s"]
  by (auto simp add: getFromCache_def cache_inv_def distinct_delete split: option.splits if_splits)

lemma cache_inv_search:
  assumes "cache_inv s"
  shows "cache_inv (snd (search clk ps s))"
proof (cases "new_SearchQuery ps")
  case (Inl e)
  with assms show ?thesis by (simp add: search_def)
next
  case (Inr q)
  obtain x s1 where g: "getFromCache (generateCacheKey q) (t_get clk) s = (x, s1)"
    by (cases "getFromCache (generateCacheKey q) (t_get clk) s") auto
  from cache_inv_getFromCache [OF assms g] have s1: "cache_inv s1" .
  then have s2: "cache_inv (s1\<lparr>misses := misses s1 + 1\<rparr>)" "cache_inv (s1\<lparr>hits := hits s1 + 1\<rparr>)"
    by (simp_all add: cache_inv_def)
  show ?thesis
    using Inr g s2 cache_inv_addToCache [OF s2(1)]
    by (cases x) (auto simp add: search_def Let_def split: sum.splits)
qed

lemma length_cacheOfSize: "length (cacheOfSize n) = n"
  by (simp add: cacheOfSize_def)

lemma keys_cacheOfSize: "k \<in> fst ` set (cacheOfSize n) \<Longrightarrow> \<exists>i<n. k = sampleKey\<lparr>k_offset := int i\<rparr>"
  by (auto simp add: cacheOfSize_def)

lemma distinct_cacheOfSize: "distinct (map fst (cacheOfSize n))"
proof -
  have "inj_on (\<lambda>i. sampleKey\<lparr>k_offset := int i\<rparr>) (set [0 ..< n])"
    by (rule inj_onI) (simp add: sampleKey_def)
  then show ?thesis
    by (simp add: cacheOfSize_def comp_def distinct_map)
qed

lemma hd_cacheOfSize:
  "0 < n \<Longrightarrow> hd (cacheOfSize n) = (sampleKey, \<lparr>ce_data = sampleResponse, ce_timestamp = 0\<rparr>)"
  by (simp add: cacheOfSize_def hd_map sampleKey_def)

lemma cache_inv_fullService: "cache_inv fullService"
  by (simp add: cache_inv_def fullService_def fullCache_def distinct_cacheOfSize
      length_cacheOfSize maxCacheSize_def)

lemma fresh_key_fullCache: "sampleKey\<lparr>k_offset := 1000\<rparr> \<notin> fst ` set fullCache"
proof
  assume a: "sampleKey\<lparr>k_offset := 1000\<rparr> \<in> fst ` set fullCache"
  from keys_cacheOfSize [OF a [unfolded fullCache_def]]
  obtain i :: nat where "i < 1000"
    and "sampleKey\<lparr>k_offset := 1000\<rparr> = sampleKey\<lparr>k_offset := int i\<rparr>"
    by auto
  then show False by (simp add: sampleKey_def)
qed

lemma hd_fullCache: "hd fullCache = (sampleKey, \<lparr>ce_data = sampleResponse, ce_timestamp = 0\<rparr>)"
  unfolding fullCache_def by (rule hd_cacheOfSize) simp

lemma addToCache_fresh:
  assumes "cache_inv s" and "k \<notin> fst ` set (searchCache s)"
  shows "searchCache (addToCache k d t s)
           = (if length (searchCache s) = maxCacheSize then tl (searchCache s) else searchCache s)
             @ [(k, \<lparr>ce_data = d, ce_timestamp = t\<rparr>)]"
proof (cases "length (searchCache s) = maxCacheSize")
  case True
  from assms(1) have dist: "distinct (map fst (searchCache s))"
    by (simp add: cache_inv_def)
  from assms(2) have "k \<notin> fst ` set (tl (searchCache s))"
    by (cases "searchCache s") auto
  then show ?thesis
    using True by (simp add: addToCache_full [OF dist True] update_fresh)
next
  case False
  with assms(1) have l: "length (searchCache s) < maxCacheSize"
    by (simp add: cache_inv_def)
  show ?thesis
    using False assms(2) by (simp add: addToCache_not_full [OF l] update_fresh)
qed

lemma search_miss_appends:
  assumes "cache_inv s" and "new_SearchQuery ps = Inr q"
    and "search clk ps s = (Inr res, s')" and "misses s' \<noteq> misses s"
  shows "searchCache s' \<noteq> [] \<and>
         last (searchCache s') = (generateCacheKey q, \<lparr>ce_data = res, ce_timestamp = t_put clk\<rparr>)"
proof -
  obtain x s1 where g: "getFromCache (generateCacheKey q) (t_get clk) s = (x, s1)"
    by (cases "getFromCache (generateCacheKey q) (t_get clk) s") auto
  show ?thesis
  proof (cases x)
    case (Some d)
    from getFromCache_Some [OF g [unfolded Some]] have "s1 = s" by simp
    with assms(2,3) g Some have "s' = s\<lparr>hits := hits s + 1\<rparr>"
      by (auto simp add: search_def)
    with assms(4) show ?thesis
      by simp
  next
    case None
    from getFromCache_None [OF g [unfolded None]]
    have absent: "map_of (searchCache s1) (generateCacheKey q) = None" by (rule conjunct2)
    from cache_inv_getFromCache [OF assms(1) g] have "cache_inv s1" .
    then have inv: "cache_inv (s1\<lparr>misses := misses s1 + 1\<rparr>)"
      by (simp add: cache_inv_def)
    from absent have fresh: "generateCacheKey q \<notin> fst ` set (searchCache (s1\<lparr>misses := misses s1 + 1\<rparr>))"
      by (simp add: map_of_eq_None_iff)
    from assms(2,3) g None
    have "s' = addToCache (generateCacheKey q) res (t_put clk) (s1\<lparr>misses := misses s1 + 1\<rparr>)"
      by (auto simp add: search_def Let_def split: sum.splits)
    then show ?thesis
      by (simp only: addToCache_fresh [OF inv fresh]) simp
  qed
qed

text \<open>
  Claim C7.  The cache of a new service is empty, and \<open>addToCache\<close>, \<open>getFromCache\<close> and
  \<open>search\<close> keep the cache a map of at most 1000 entries.  A put into a cache of 1000
  entries first deletes the first key in insertion order, and only that one, counts one
  eviction and then sets the new entry, which goes to the end when its key is new; a put
  into a smaller cache evicts nothing.  The entry that a search puts after a miss is the
  last one of the cache, so the order of the cache is the order of the puts.  A hit of
  \<open>getFromCache\<close> leaves the cache as it is, so reading an entry does not change the order
  of eviction.
\<close>

theorem cache_bounded_fifo:
  assumes "cache_inv s"
  shows "cache_inv (new_SearchService r0) \<and>
         cache_inv (addToCache k d t s) \<and>
         cache_inv (snd (search clk ps s)) \<and>
         (length (searchCache s) = maxCacheSize \<longrightarrow>
            searchCache (addToCache k d t s)
              = AList.update k \<lparr>ce_data = d, ce_timestamp = t\<rparr> (tl (searchCache s)) \<and>
            evictions (addToCache k d t s) = evictions s + 1 \<and>
            (k \<notin> fst ` set (searchCache s) \<longrightarrow>
               searchCache (addToCache k d t s)
                 = tl (searchCache s) @ [(k, \<lparr>ce_data = d, ce_timestamp = t\<rparr>)])) \<and>
         (length (searchCache s) < maxCacheSize \<longrightarrow>
            searchCache (addToCache k d t s)
              = AList.update k \<lparr>ce_data = d, ce_timestamp = t\<rparr> (searchCache s) \<and>
            evictions (addToCache k d t s) = evictions s) \<and>
         (\<forall>k' t' d' s'. getFromCache k' t' s = (Some d', s') \<longrightarrow> searchCache s' = searchCache s) \<and>
         (\<forall>k' t' x s'. getFromCache k' t' s = (x, s') \<longrightarrow> cache_inv s') \<and>
         (\<forall>q res s'. new_SearchQuery ps = Inr q \<and> search clk ps s = (Inr res, s')
              \<and> misses s' \<noteq> misses s \<longrightarrow>
            searchCache s' \<noteq> [] \<and>
            last (searchCache s') = (generateCacheKey q, \<lparr>ce_data = res, ce_timestamp = t_put clk\<rparr>))"
proof (intro conjI impI allI)
  show "cache_inv (new_SearchService r0)"
    by (simp add: cache_inv_def new_SearchService_def)
  show "cache_inv (addToCache k d t s)"
    using assms by (rule cache_inv_addToCache)
  show "cache_inv (snd (search clk ps s))"
    using assms by (rule cache_inv_search)
next
  assume full: "length (searchCache s) = maxCacheSize"
  from assms have dist: "distinct (map fst (searchCache s))" by (simp add: cache_inv_def)
  show "searchCache (addToCache k d t s)
          = AList.update k \<lparr>ce_data = d, ce_timestamp = t\<rparr> (tl (searchCache s))"
    by (simp add: addToCache_full [OF dist full])
  show "evictions (addToCache k d t s) = evictions s + 1"
    by (simp add: addToCache_full [OF dist full])
  assume "k \<notin> fst ` set (searchCache s)"
  then have "k \<notin> fst ` set (tl (searchCache s))"
    by (cases "searchCache s") auto
  then show "searchCache (addToCache k d t s)
               = tl (searchCache s) @ [(k, \<lparr>ce_data = d, ce_timestamp = t\<rparr>)]"
    by (simp add: addToCache_full [OF dist full] update_fresh)
next
  assume l: "length (searchCache s) < maxCacheSize"
  show "searchCache (addToCache k d t s)
          = AList.update k \<lparr>ce_data = d, ce_timestamp = t\<rparr> (searchCache s)"
    by (simp add: addToCache_not_full [OF l])
  show "evictions (addToCache k d t s) = evictions s"
    by (simp add: addToCache_not_full [OF l])
next
  fix k' t' d' s'
  assume "getFromCache k' t' s = (Some d', s')"
  then show "searchCache s' = searchCache s"
    by (auto simp add: getFromCache_def split: option.splits if_splits)
next
  fix k' t' x s'
  assume "getFromCache k' t' s = (x, s')"
  with assms show "cache_inv s'"
    by (rule cache_inv_getFromCache)
next
  fix q res s'
  assume a: "new_SearchQuery ps = Inr q \<and> search clk ps s = (Inr res, s') \<and> misses s' \<noteq> misses s"
  from search_miss_appends [OF assms, of ps q clk res s'] a
  show "searchCache s' \<noteq> []"
    and "last (searchCache s') = (generateCacheKey q, \<lparr>ce_data = res, ce_timestamp = t_put clk\<rparr>)"
    by simp_all
qed

theorem cache_bounded_fifo_witness:
  "cache_inv fullService \<and> length (searchCache fullService) = maxCacheSize \<and>
   hd (searchCache fullService) = (sampleKey, \<lparr>ce_data = sampleResponse, ce_timestamp = 0\<rparr>) \<and>
   sampleKey\<lparr>k_offset := 1000\<rparr> \<notin> fst ` set (searchCache fullService) \<and>
   searchCache (addToCache (sampleKey\<lparr>k_offset := 1000\<rparr>) sampleResponse 5 fullService)
     = tl fullCache @ [(sampleKey\<lparr>k_offset := 1000\<rparr>, \<lparr>ce_data = sampleResponse, ce_timestamp = 5\<rparr>)] \<and>
   evictions (addToCache (sampleKey\<lparr>k_offset := 1000\<rparr>) sampleResponse 5 fullService) = 1 \<and>
   cache_inv (addToCache (sampleKey\<lparr>k_offset := 1000\<rparr>) sampleResponse 5 fullService) \<and>
   getFromCache sampleKey 7 fullService = (Some sampleResponse, fullService) \<and>
   cache_inv (new_SearchService sampleRepo) \<and>
   length (searchCache (new_SearchService sampleRepo)) < maxCacheSize \<and>
   searchCache (addToCache sampleKey sampleResponse 5 (new_SearchService sampleRepo))
     = [(sampleKey, \<lparr>ce_data = sampleResponse, ce_timestamp = 5\<rparr>)] \<and>
   evictions (addToCache sampleKey sampleResponse 5 (new_SearchService sampleRepo)) = 0 \<and>
   search zeroClock no_params (new_SearchService sampleRepo) = (Inr sampleResponse, cachedService) \<and>
   misses cachedService \<noteq> misses (new_SearchService sampleRepo) \<and>
   last (searchCache cachedService) = (sampleKey, \<lparr>ce_data = sampleResponse, ce_timestamp = 0\<rparr>)"
proof -
  have l: "length (searchCache fullService) = maxCacheSize"
    by (simp add: fullService_def fullCache_def length_cacheOfSize maxCacheSize_def)
  have f: "sampleKey\<lparr>k_offset := 1000\<rparr> \<notin> fst ` set (searchCache fullService)"
    using fresh_key_fullCache by (simp add: fullService_def)
  note t = cache_bounded_fifo [OF cache_inv_fullService,
      of sampleRepo "sampleKey\<lparr>k_offset := 1000\<rparr>" sampleResponse 5 zeroClock no_params]
  from t have c: "cache_inv (addToCache (sampleKey\<lparr>k_offset := 1000\<rparr>) sampleResponse 5 fullService)"
    by blast
  from t l f have a: "searchCache (addToCache (sampleKey\<lparr>k_offset := 1000\<rparr>) sampleResponse 5 fullService)
     = tl (searchCache fullService) @ [(sampleKey\<lparr>k_offset := 1000\<rparr>, \<lparr>ce_data = sampleResponse, ce_timestamp = 5\<rparr>)]"
    by blast
  from t l have e: "evictions (addToCache (sampleKey\<lparr>k_offset := 1000\<rparr>) sampleResponse 5 fullService)
     = evictions fullService + 1"
    by blast
  from t have n: "cache_inv (new_SearchService sampleRepo)"
    by blast
  have h: "hd (searchCache fullService) = (sampleKey, \<lparr>ce_data = sampleResponse, ce_timestamp = 0\<rparr>)"
    using hd_fullCache by (simp add: fullService_def)
  have s: "searchCache fullService = fullCache" "evictions fullService = 0"
    by (simp_all add: fullService_def)
  have ne: "fullCache \<noteq> []"
    using l by (auto simp add: s maxCacheSize_def)
  from ne obtain a c' where fc: "fullCache = a # c'"
    by (cases fullCache) auto
  from hd_fullCache [unfolded fc] have "a = (sampleKey, \<lparr>ce_data = sampleResponse, ce_timestamp = 0\<rparr>)"
    by simp
  then have "map_of fullCache sampleKey = Some \<lparr>ce_data = sampleResponse, ce_timestamp = 0\<rparr>"
    by (simp add: fc)
  then have g: "getFromCache sampleKey 7 fullService = (Some sampleResponse, fullService)"
    by (simp add: getFromCache_def s)
  note t0 = cache_bounded_fifo [OF n, of sampleRepo sampleKey sampleResponse 5 zeroClock no_params]
  have l0: "length (searchCache (new_SearchService sampleRepo)) < maxCacheSize"
    by (simp add: new_SearchService_def maxCacheSize_def)
  from t0 l0 have a0: "searchCache (addToCache sampleKey sampleResponse 5 (new_SearchService sampleRepo))
      = AList.update sampleKey \<lparr>ce_data = sampleResponse, ce_timestamp = 5\<rparr>
          (searchCache (new_SearchService sampleRepo))"
    and e0: "evictions (addToCache sampleKey sampleResponse 5 (new_SearchService sampleRepo))
      = evictions (new_SearchService sampleRepo)"
    by blast+
  have a1: "searchCache (addToCache sampleKey sampleResponse 5 (new_SearchService sampleRepo))
     = [(sampleKey, \<lparr>ce_data = sampleResponse, ce_timestamp = 5\<rparr>)]"
    unfolding a0 by (simp add: new_SearchService_def)
  have e1: "evictions (addToCache sampleKey sampleResponse 5 (new_SearchService sampleRepo)) = 0"
    unfolding e0 by (simp add: new_SearchService_def)
  have first: "search zeroClock no_params (new_SearchService sampleRepo) = (Inr sampleResponse, cachedService)"
    using search_sample by (simp add: cachedService_def)
  have m: "misses cachedService \<noteq> misses (new_SearchService sampleRepo)"
    by (simp add: cachedService_def new_SearchService_def)
  from t0 new_SearchQuery_no_params first m
  have "last (searchCache cachedService)
          = (generateCacheKey defaultQuery, \<lparr>ce_data = sampleResponse, ce_timestamp = t_put zeroClock\<rparr>)"
    by blast
  then have la: "last (searchCache cachedService) = (sampleKey, \<lparr>ce_data = sampleResponse, ce_timestamp = 0\<rparr>)"
    by (simp add: generateCacheKey_default zeroClock_def)
  show ?thesis
    using cache_inv_fullService l h f a e c g n l0 a1 e1 first m la unfolding s by simp
qed

subsection \<open>A repeated search is served from the cache\<close>

lemma getFromCache_hit:
  "map_of (searchCache s) k = Some e \<Longrightarrow> t - ce_timestamp e < 300000 \<Longrightarrow>
     getFromCache k t s = (Some (ce_data e), s)"
  by (simp add: getFromCache_def)

lemma map_of_addToCache:
  "map_of (searchCache (addToCache k d t s)) k = Some \<lparr>ce_data = d, ce_timestamp = t\<rparr>"
  by (simp add: addToCache_def Let_def update_conv')

lemma search_entry:
  assumes "search clk ps s = (Inr res, s1)"
  shows "\<exists>q e. new_SearchQuery ps = Inr q \<and> map_of (searchCache s1) (generateCacheKey q) = Some e
           \<and> ce_data e = res \<and> (misses s1 \<noteq> misses s \<longrightarrow> ce_timestamp e = t_put clk)"
proof -
  from assms obtain q where q: "new_SearchQuery ps = Inr q"
    by (cases "new_SearchQuery ps") (auto simp add: search_def)
  obtain x s' where g: "getFromCache (generateCacheKey q) (t_get clk) s = (x, s')"
    by (cases "getFromCache (generateCacheKey q) (t_get clk) s") auto
  show ?thesis
  proof (cases x)
    case (Some d)
    from getFromCache_Some [OF g [unfolded Some]] obtain e where
      "s' = s" "map_of (searchCache s) (generateCacheKey q) = Some e" "ce_data e = d"
      by blast
    moreover from assms q g Some have "res = d" "s1 = s'\<lparr>hits := hits s' + 1\<rparr>"
      by (simp_all add: search_def)
    ultimately show ?thesis using q by simp
  next
    case None
    with assms q g obtain r where
      "performSearch (t_start clk) (t_end clk) (productRepository s') q = Inr r" "res = r"
      "s1 = addToCache (generateCacheKey q) r (t_put clk) (s'\<lparr>misses := misses s' + 1\<rparr>)"
      by (auto simp add: search_def Let_def split: sum.splits)
    then show ?thesis using q by (simp add: map_of_addToCache)
  qed
qed

lemma new_SearchQuery_badSort:
  "new_SearchQuery badSortParams =
     Inl (Error ''Invalid sortBy value. Allowed values: relevance, price_low, price_high, rating, popularity, newest'')"
proof -
  have a: "assign_params badSortParams = defaultQuery\<lparr>q_sortBy := ''bogus''\<rparr>"
    by (simp add: assign_params_def badSortParams_def no_params_def defaultQuery_def or_str_def
        or_int_def parseInt_def truthy_def)
  show ?thesis
    by (simp add: new_SearchQuery_def a validate_def defaultQuery_def truthy_num_def
        isValidSortBy_def)
qed

text \<open>
  Claim C2 speaks of every query-parameter object.  For parameters that the \<open>SearchQuery\<close>
  constructor rejects, here an unknown \<open>sortBy\<close>, \<open>search\<close> throws before it reads the
  cache: the second call throws the same error as the first, there is no output, and the
  hit counter stays at 0.
\<close>

theorem rejected_search_counts_no_hit_counterexample:
  "search zeroClock badSortParams (new_SearchService sampleRepo) =
     (Inl (Error ''Invalid sortBy value. Allowed values: relevance, price_low, price_high, rating, popularity, newest''),
      new_SearchService sampleRepo) \<and>
   search zeroClock badSortParams (snd (search zeroClock badSortParams (new_SearchService sampleRepo))) =
     (Inl (Error ''Invalid sortBy value. Allowed values: relevance, price_low, price_high, rating, popularity, newest''),
      new_SearchService sampleRepo) \<and>
   hits (new_SearchService sampleRepo) = 0"
  by (simp add: search_def new_SearchQuery_badSort) (simp add: new_SearchService_def)

text \<open>
  Claim C2, amended.  When \<open>search\<close> returns a response for the parameters \<open>ps\<close>, the
  cache holds that response under the key of the query afterwards (inserted at the time
  of the put when the call was a miss).  A second call with the same parameters whose
  cache lookup is less than 300000 ms after that entry's time stamp returns the same
  response and changes nothing but the hit counter, which goes up by one.
  \<open>getFromCache\<close> returns the stored response exactly when \<open>now - timestamp < 300000\<close>;
  otherwise it deletes the entry and reports a miss, and after a miss the key is not in
  the cache.
\<close>

theorem repeated_search_hits_cache:
  assumes "search clk1 ps s = (Inr res, s1)"
  shows "(\<exists>q e. new_SearchQuery ps = Inr q \<and> map_of (searchCache s1) (generateCacheKey q) = Some e
            \<and> ce_data e = res \<and> (misses s1 \<noteq> misses s \<longrightarrow> ce_timestamp e = t_put clk1)
            \<and> (t_get clk2 - ce_timestamp e < 300000 \<longrightarrow>
                 search clk2 ps s1 = (Inr res, s1\<lparr>hits := hits s1 + 1\<rparr>))) \<and>
         (\<forall>k t s0 e. map_of (searchCache s0) k = Some e \<longrightarrow>
            getFromCache k t s0 =
              (if t - ce_timestamp e < 300000 then (Some (ce_data e), s0)
               else (None, s0\<lparr>searchCache := AList.delete k (searchCache s0)\<rparr>))) \<and>
         (\<forall>k t s0. map_of (searchCache s0) k = None \<longrightarrow> getFromCache k t s0 = (None, s0)) \<and>
         (\<forall>k t s0 s0'. getFromCache k t s0 = (None, s0') \<longrightarrow> map_of (searchCache s0') k = None)"
proof (intro conjI allI impI)
  from search_entry [OF assms] obtain q e where q: "new_SearchQuery ps = Inr q"
    and e: "map_of (searchCache s1) (generateCacheKey q) = Some e" "ce_data e = res"
    and m: "misses s1 \<noteq> misses s \<longrightarrow> ce_timestamp e = t_put clk1"
    by blast
  have "search clk2 ps s1 = (Inr res, s1\<lparr>hits := hits s1 + 1\<rparr>)"
    if "t_get clk2 - ce_timestamp e < 300000"
    using getFromCache_hit [OF e(1) that] q e(2) by (simp add: search_def)
  with q e m show "\<exists>q e. new_SearchQuery ps = Inr q \<and> map_of (searchCache s1) (generateCacheKey q) = Some e
            \<and> ce_data e = res \<and> (misses s1 \<noteq> misses s \<longrightarrow> ce_timestamp e = t_put clk1)
            \<and> (t_get clk2 - ce_timestamp e < 300000 \<longrightarrow>
                 search clk2 ps s1 = (Inr res, s1\<lparr>hits := hits s1 + 1\<rparr>))"
    by blast
next
  fix k t and s0 :: SearchService and e
  assume "map_of (searchCache s0) k = Some e"
  then show "getFromCache k t s0 =
              (if t - ce_timestamp e < 300000 then (Some (ce_data e), s0)
               else (None, s0\<lparr>searchCache := AList.delete k (searchCache s0)\<rparr>))"
    by (simp add: getFromCache_def)
next
  fix k t and s0 :: SearchService
  assume "map_of (searchCache s0) k = None"
  then show "getFromCache k t s0 = (None, s0)"
    by (simp add: getFromCache_def)
next
  fix k t and s0 s0' :: SearchService
  assume "getFromCache k t s0 = (None, s0')"
  then show "map_of (searchCache s0') k = None"
    by (simp add: getFromCache_None)
qed

theorem repeated_search_hits_cache_witness:
  "search zeroClock no_params (new_SearchService sampleRepo) = (Inr sampleResponse, cachedService) \<and>
   misses cachedService \<noteq> misses (new_SearchService sampleRepo) \<and>
   search (zeroClock\<lparr>t_get := 299999\<rparr>) no_params cachedService
     = (Inr sampleResponse, cachedService\<lparr>hits := 1\<rparr>) \<and>
   getFromCache sampleKey 299999 cachedService = (Some sampleResponse, cachedService) \<and>
   getFromCache sampleKey 300000 cachedService = (None, cachedService\<lparr>searchCache := []\<rparr>) \<and>
   getFromCache sampleKey 0 (new_SearchService sampleRepo) = (None, new_SearchService sampleRepo)"
proof -
  have first: "search zeroClock no_params (new_SearchService sampleRepo) = (Inr sampleResponse, cachedService)"
    using search_sample by (simp add: cachedService_def)
  note t = repeated_search_hits_cache [OF first, where ?clk2.0 = "zeroClock\<lparr>t_get := 299999\<rparr>"]
  have m: "misses cachedService \<noteq> misses (new_SearchService sampleRepo)"
    by (simp add: cachedService_def new_SearchService_def)
  have mo: "map_of (searchCache cachedService) sampleKey
              = Some \<lparr>ce_data = sampleResponse, ce_timestamp = 0\<rparr>"
    by (simp add: cachedService_def)
  from t obtain q e where q: "new_SearchQuery no_params = Inr q"
    and e: "map_of (searchCache cachedService) (generateCacheKey q) = Some e"
    and h: "t_get (zeroClock\<lparr>t_get := 299999\<rparr>) - ce_timestamp e < 300000 \<longrightarrow>
              search (zeroClock\<lparr>t_get := 299999\<rparr>) no_params cachedService
                = (Inr sampleResponse, cachedService\<lparr>hits := hits cachedService + 1\<rparr>)"
    by blast
  from q have "q = defaultQuery"
    by (simp add: new_SearchQuery_no_params)
  with e mo have "e = \<lparr>ce_data = sampleResponse, ce_timestamp = 0\<rparr>"
    by (simp add: generateCacheKey_default)
  with h have second: "search (zeroClock\<lparr>t_get := 299999\<rparr>) no_params cachedService
                = (Inr sampleResponse, cachedService\<lparr>hits := 1\<rparr>)"
    by (simp add: zeroClock_def) (simp add: cachedService_def)
  from t mo have g1: "getFromCache sampleKey 299999 cachedService = (Some sampleResponse, cachedService)"
    by (auto simp add: cachedService_def)
  from t mo have "getFromCache sampleKey 300000 cachedService =
      (None, cachedService\<lparr>searchCache := AList.delete sampleKey (searchCache cachedService)\<rparr>)"
    by (auto simp add: cachedService_def)
  then have g2: "getFromCache sampleKey 300000 cachedService = (None, cachedService\<lparr>searchCache := []\<rparr>)"
    by (simp add: cachedService_def)
  have "map_of (searchCache (new_SearchService sampleRepo)) sampleKey = None"
    by (simp add: new_SearchService_def)
  with t have g3: "getFromCache sampleKey 0 (new_SearchService sampleRepo) = (None, new_SearchService sampleRepo)"
    by blast
  show ?thesis
    using first m second g1 g2 g3 by simp
qed

end
